theory Spec2Isabelle
  imports Main "HOL-Library.Sublist"
begin

section \<open>Python strings\<close>

text \<open>
  A Python \<open>str\<close> is modelled as an Isabelle \<open>string\<close>, a list of characters whose code
  points lie below 256 (so the line separators U+2028 and U+2029 are not among them).  The
  functions of this section are the \<open>str\<close> methods the adapter calls, with Python's
  behaviour written out.
\<close>

abbreviation LF :: char where "LF \<equiv> CHR 0x0A"
abbreviation CR :: char where "CR \<equiv> CHR 0x0D"
abbreviation NUL :: char where "NUL \<equiv> CHR 0x00"
abbreviation TAB :: char where "TAB \<equiv> CHR 0x09"

text \<open>\<open>s.startswith(p)\<close> is \<^const>\<open>prefix\<close>, \<open>s.endswith(p)\<close> is \<^const>\<open>suffix\<close>.\<close>

text \<open>\<open>pat in s\<close>: the text \<open>pat\<close> occurs somewhere in \<open>s\<close>.\<close>

fun contains :: "string \<Rightarrow> string \<Rightarrow> bool" where
  "contains pat [] = (pat = [])"
| "contains pat (c # cs) = (prefix pat (c # cs) \<or> contains pat cs)"

text \<open>
  \<open>s.replace(old, new)\<close>: the occurrences of \<open>old\<close> are found from left to right, without
  overlap, and each is replaced by \<open>new\<close>.  For an empty \<open>old\<close> Python puts \<open>new\<close> before
  every character and at the end.
\<close>

function replace_occurrences :: "string \<Rightarrow> string \<Rightarrow> string \<Rightarrow> string" where
  "replace_occurrences old new [] = []"
| "replace_occurrences old new (c # cs) =
     (if old \<noteq> [] \<and> prefix old (c # cs)
      then new @ replace_occurrences old new (drop (length old) (c # cs))
      else c # replace_occurrences old new cs)"
  by pat_completeness auto
termination
  by (relation "measure (\<lambda>(old, new, s). length s)") auto

definition str_replace :: "string \<Rightarrow> string \<Rightarrow> string \<Rightarrow> string" where
  "str_replace old new s =
     (if old = [] then new @ concat (map (\<lambda>c. c # new) s)
      else replace_occurrences old new s)"

text \<open>\<open>s.rstrip(chars)\<close> and \<open>s.lstrip(chars)\<close>: drop the characters of \<open>chars\<close> at one end.\<close>

definition rstrip :: "string \<Rightarrow> string \<Rightarrow> string" where
  "rstrip chars s = rev (dropWhile (\<lambda>c. c \<in> set chars) (rev s))"

definition lstrip :: "string \<Rightarrow> string \<Rightarrow> string" where
  "lstrip chars s = dropWhile (\<lambda>c. c \<in> set chars) s"

text \<open>\<open>s.split(sep)\<close> for a one-character separator; the result is never empty.\<close>

fun str_split :: "char \<Rightarrow> string \<Rightarrow> string list" where
  "str_split sep [] = [[]]"
| "str_split sep (c # cs) =
     (if c = sep then [] # str_split sep cs
      else (case str_split sep cs of
              [] \<Rightarrow> [[c]]
            | l # ls \<Rightarrow> (c # l) # ls))"

text \<open>\<open>sep.join(parts)\<close>.\<close>

fun str_join :: "string \<Rightarrow> string list \<Rightarrow> string" where
  "str_join sep [] = []"
| "str_join sep [l] = l"
| "str_join sep (l # m # ls) = l @ sep @ str_join sep (m # ls)"

text \<open>
  \<open>s.splitlines(keepends=True)\<close>.  A line ends at \<open>\n\<close>, \<open>\r\<close>, \<open>\r\n\<close>, \<open>\v\<close>, \<open>\f\<close>,
  \<open>\x1c\<close>, \<open>\x1d\<close>, \<open>\x1e\<close> or \<open>\x85\<close>; the line keeps its terminator, and a text that ends
  with a terminator has no empty last line.
\<close>

definition is_line_boundary :: "char \<Rightarrow> bool" where
  "is_line_boundary c \<longleftrightarrow>
     c = LF \<or> c = CR \<or> c = CHR 0x0B \<or> c = CHR 0x0C \<or> c = CHR 0x1C \<or> c = CHR 0x1D
     \<or> c = CHR 0x1E \<or> c = CHR 0x85"

fun splitlines_from :: "string \<Rightarrow> string \<Rightarrow> string list" where
  "splitlines_from cur [] = (if cur = [] then [] else [cur])"
| "splitlines_from cur [c] = [cur @ [c]]"
| "splitlines_from cur (c # d # cs) =
     (if c = CR \<and> d = LF then (cur @ [c, d]) # splitlines_from [] cs
      else if is_line_boundary c then (cur @ [c]) # splitlines_from [] (d # cs)
      else splitlines_from (cur @ [c]) (d # cs))"

definition splitlines_keepends :: "string \<Rightarrow> string list" where
  "splitlines_keepends s = splitlines_from [] s"

text \<open>\<open>str(n)\<close> for an integer: its decimal digits, with a minus sign below zero.\<close>

fun digits_of :: "nat \<Rightarrow> string" where
  "digits_of n =
     (if n < 10 then [''0123456789'' ! n]
      else digits_of (n div 10) @ [''0123456789'' ! (n mod 10)])"

declare digits_of.simps [simp del]

definition str_int :: "int \<Rightarrow> string" where
  "str_int i = (if i < 0 then CHR ''-'' # digits_of (nat (- i)) else digits_of (nat i))"

text \<open>
  The exceptions that occur: \<open>SystemExit\<close>, which \<open>except Exception\<close> does not catch, the
  three that the adapter's own statements raise, and any other exception, with its text.
  A call either returns a value or raises.
\<close>

datatype py_exc =
    SystemExit
  | IndexError
  | AttributeError
  | UnboundLocalError
  | Exception string

datatype 'a outcome = Returns 'a | Raises py_exc

text \<open>\<open>xs[i]\<close> on a list: a negative index counts from the end, an index out of range raises.\<close>

definition py_index :: "'a list \<Rightarrow> int \<Rightarrow> 'a outcome" where
  "py_index xs i =
     (if 0 \<le> i \<and> i < int (length xs) then Returns (xs ! nat i)
      else if i < 0 \<and> - int (length xs) \<le> i then Returns (xs ! nat (int (length xs) + i))
      else Raises IndexError)"

section \<open>The process and what lies outside the adapter\<close>

text \<open>
  The runs of the formatter and the messages sent to the editor are recorded in the order
  they happen: \<open>LSP_SERVER.show_message_log\<close> and \<open>show_message\<close>, a child process started
  with its argument vector, working directory, whether its input is piped and the input, a
  request sent over JSON-RPC (workspace, interpreter, module, argv, use\_stdin, cwd, source),
  and a run of a module by \<open>runpy\<close> as the module sees it (module, \<open>sys.argv\<close>, working
  directory, the text on \<open>sys.stdin\<close>).
\<close>

datatype MessageType = Error | Warning | Info | Log

datatype event =
    ShowMessageLog string MessageType
  | ShowMessage string MessageType
  | Popen "string list" string bool "string option"
  | JsonRpcRequest string "string list" string "string list" bool string string
  | RunpyRunModule string "string list" string string

text \<open>
  The state of the server process that the adapter reads and writes: the attributes of
  \<open>sys\<close> it substitutes, the working directory, the stream objects (addressed by number, so
  that two names can hold the same object), and the record of events.
\<close>

record process =
  sys_argv :: "string list"
  sys_path :: "string list"
  sys_stdout :: nat
  sys_stderr :: nat
  sys_stdin :: nat
  os_cwd :: string
  stream_content :: "nat \<Rightarrow> string"
  next_stream :: nat
  trace :: "event list"

text \<open>
  What one run of the tool's \<open>__main__\<close> does: the text it leaves in \<open>sys.stdout\<close> and
  \<open>sys.stderr\<close> (as \<open>get_value\<close> reads it back), and how it ends: by returning, or with
  \<open>SystemExit\<close> or another exception.  The tool is taken to change nothing else of the
  process.
\<close>

record module_run =
  wrote_stdout :: string
  wrote_stderr :: string
  ended :: "py_exc option"

record RunResult =
  stdout :: string
  stderr :: string

record RpcRunResult =
  rpc_stdout :: string
  rpc_stderr :: string
  rpc_exception :: "string option"

text \<open>
  A document of the workspace, with the attributes the adapter reads, as the workspace
  library gives them (the path is a string), and the settings of a
  workspace, with the keys the adapter reads: the keys it subscripts are present, and
  \<open>cellMagics\<close>, read with a default, may be missing.  \<open>GLOBAL_SETTINGS\<close> is read with
  defaults throughout.
\<close>

record document =
  uri :: string
  path :: string
  source :: string
  lines :: "string list"

record settings =
  s_cwd :: string
  s_workspaceFS :: string
  s_workspace :: string
  s_path :: "string list"
  s_interpreter :: "string list"
  s_args :: "string list"
  s_showDebugLog :: bool
  s_cellMagics :: "string list option"

record global_settings =
  g_path :: "string list option"
  g_interpreter :: "string list option"
  g_args :: "string list option"
  g_showDebugLog :: "bool option"
  g_cellMagics :: "string list option"

record Position =
  line :: int
  character :: int

record Range =
  range_start :: Position
  range_end :: Position

record TextEdit =
  edit_range :: Range
  new_text :: string

text \<open>
  The collaborators the adapter calls and does not define, as parameters of the model:
  \<^item> the module \<open>constants\<close> (\<open>PYTHON_CELL_MAGICS\<close>) and Python's \<open>re\<close>: \<open>re_search pattern line\<close>
    says whether the compiled pattern matches somewhere in the line (the pattern is taken
    to compile);
  \<^item> \<open>os.path.normcase(os.path.normpath(p))\<close>, the site-packages paths, \<open>sys.executable\<close>,
    the directory the server started in, \<open>os.path.sep\<close> and the environment variable
    \<open>LS_SHOW_NOTIFICATION\<close>;
  \<^item> \<open>pathlib\<close>: the path with its ancestors, nearest first, up to the root (which is left
    out), and the parent of a path; \<open>uris.from_fs_path\<close>;
  \<^item> the formatter run in this process, as a child process (\<open>communicate\<close> gives its
    stdout, stderr and exit status, or raises) and under another interpreter
    (\<open>remote_run\<close> gives the text of the exception when that call fails, and otherwise its
    stdout and stderr);
  \<^item> \<open>ast.parse\<close>: the \<open>lineno\<close> and \<open>end_lineno\<close> of the statements of the module body,
    or \<open>None\<close> for a \<open>SyntaxError\<close>;
  \<^item> \<open>importlib.import_module("yapf")\<close> and the formatter's \<open>file_resources\<close>: the text of
    the exception when the call raises;
  \<^item> \<open>traceback.format_exc\<close> and the \<open>repr\<close> of a list of strings;
  \<^item> the dictionaries \<open>WORKSPACE_SETTINGS\<close> (its values in insertion order, each stored under
    its \<open>workspaceFS\<close>) and \<open>GLOBAL_SETTINGS\<close>, which \<open>initialize\<close> fills.
\<close>

record env =
  PYTHON_CELL_MAGICS :: "string list"
  re_search :: "string \<Rightarrow> string \<Rightarrow> bool"
  normcase_normpath :: "string \<Rightarrow> string"
  site_paths :: "string list"
  sys_executable :: string
  SERVER_CWD :: string
  os_path_sep :: string
  LS_SHOW_NOTIFICATION :: "string option"
  path_and_parents :: "string \<Rightarrow> string list"
  path_parent :: "string \<Rightarrow> string"
  from_fs_path :: "string \<Rightarrow> string"
  module_main :: "string \<Rightarrow> string list \<Rightarrow> string \<Rightarrow> string \<Rightarrow> module_run"
  communicate ::
    "string list \<Rightarrow> string \<Rightarrow> bool \<Rightarrow> string option \<Rightarrow> (string \<times> string \<times> int) outcome"
  remote_run ::
    "string \<Rightarrow> string list \<Rightarrow> string \<Rightarrow> string list \<Rightarrow> bool \<Rightarrow> string \<Rightarrow> string
       \<Rightarrow> string + string \<times> string"
  ast_parse :: "string \<Rightarrow> (int \<times> int) list option"
  import_module_yapf :: "string option"
  GetExcludePatternsForDir :: "string \<Rightarrow> string + string list"
  IsIgnored :: "string \<Rightarrow> string list \<Rightarrow> string + bool"
  format_exc :: "py_exc \<Rightarrow> string"
  repr_list :: "string list \<Rightarrow> string"
  WORKSPACE_SETTINGS :: "settings list"
  GLOBAL_SETTINGS :: global_settings

section \<open>lsp\_utils.py\<close>

subsection \<open>Cell magics\<close>

text \<open>
  \<open>is_cell_magic\<close> compiles the pattern \<open>^%{1,2}(m1|m2|...)\<close> from the magics of
  \<open>constants.PYTHON_CELL_MAGICS\<close> followed by the configured ones and searches the line.
\<close>

definition is_cell_magic :: "env \<Rightarrow> string \<Rightarrow> string list \<Rightarrow> bool" where
  "is_cell_magic env code_line python_cell_magics =
     re_search env
       (''^%{1,2}('' @ str_join ''|'' (PYTHON_CELL_MAGICS env @ python_cell_magics) @ '')'')
       code_line"

definition mask :: string where
  "mask = [CHR ''#'', NUL, CHR ''%'', NUL, CHR ''#'']"

definition encode_line_magic :: "string \<Rightarrow> string" where
  "encode_line_magic code_line = str_replace ''%'' mask code_line"

definition encode_cell_magic :: "env \<Rightarrow> string \<Rightarrow> string list \<Rightarrow> string" where
  "encode_cell_magic env code python_cell_magics =
     str_join [LF]
       (map (\<lambda>code_line.
               if is_cell_magic env code_line python_cell_magics
               then encode_line_magic code_line
               else code_line)
            (str_split LF code))"

definition decode_line_magic :: "string \<Rightarrow> string" where
  "decode_line_magic code_line = str_replace mask ''%'' code_line"

definition decode_cell_magic :: "string \<Rightarrow> string" where
  "decode_cell_magic code = decode_line_magic code"

subsection \<open>Paths\<close>

definition is_same_path :: "env \<Rightarrow> string \<Rightarrow> string \<Rightarrow> bool" where
  "is_same_path env file_path1 file_path2 \<longleftrightarrow>
     normcase_normpath env file_path1 = normcase_normpath env file_path2"

definition is_current_interpreter :: "env \<Rightarrow> string \<Rightarrow> bool" where
  "is_current_interpreter env executable \<longleftrightarrow> is_same_path env executable (sys_executable env)"

definition is_stdlib_file :: "env \<Rightarrow> string \<Rightarrow> bool" where
  "is_stdlib_file env file_path \<longleftrightarrow>
     list_ex (\<lambda>p. prefix p (normcase_normpath env file_path)) (site_paths env)"

subsection \<open>Streams and context managers\<close>

text \<open>
  \<open>CustomIO(name)\<close> and \<open>YapfIO(name)\<close> make a new, empty stream object; \<open>write\<close> appends to
  it and \<open>get_value\<close> reads all of it.
\<close>

definition CustomIO :: "process \<Rightarrow> nat \<times> process" where
  "CustomIO p =
     (next_stream p,
      p\<lparr>stream_content := (stream_content p)(next_stream p := []),
        next_stream := Suc (next_stream p)\<rparr>)"

definition YapfIO :: "process \<Rightarrow> nat \<times> process" where
  "YapfIO p = CustomIO p"

definition stream_write :: "nat \<Rightarrow> string \<Rightarrow> process \<Rightarrow> process" where
  "stream_write a text p =
     p\<lparr>stream_content := (stream_content p)(a := stream_content p a @ text)\<rparr>"

definition get_value :: "nat \<Rightarrow> process \<Rightarrow> string" where
  "get_value a p = stream_content p a"

datatype sys_attr = Attr_argv | Attr_path

fun getattr :: "sys_attr \<Rightarrow> process \<Rightarrow> string list" where
  "getattr Attr_argv p = sys_argv p"
| "getattr Attr_path p = sys_path p"

fun setattr :: "sys_attr \<Rightarrow> string list \<Rightarrow> process \<Rightarrow> process" where
  "setattr Attr_argv v p = p\<lparr>sys_argv := v\<rparr>"
| "setattr Attr_path v p = p\<lparr>sys_path := v\<rparr>"

datatype sys_stream = Stream_stdout | Stream_stderr | Stream_stdin

fun getstream :: "sys_stream \<Rightarrow> process \<Rightarrow> nat" where
  "getstream Stream_stdout p = sys_stdout p"
| "getstream Stream_stderr p = sys_stderr p"
| "getstream Stream_stdin p = sys_stdin p"

fun setstream :: "sys_stream \<Rightarrow> nat \<Rightarrow> process \<Rightarrow> process" where
  "setstream Stream_stdout v p = p\<lparr>sys_stdout := v\<rparr>"
| "setstream Stream_stderr v p = p\<lparr>sys_stderr := v\<rparr>"
| "setstream Stream_stdin v p = p\<lparr>sys_stdin := v\<rparr>"

text \<open>
  The three context managers are generator functions with no \<open>try\<close>: the statement after
  \<open>yield\<close> runs when the body of the \<open>with\<close> block ends normally, and is skipped when the
  body raises, the exception going on to the caller.  \<open>os.chdir\<close> is taken to succeed.
\<close>

definition substitute_attr ::
  "sys_attr \<Rightarrow> string list \<Rightarrow> (process \<Rightarrow> 'a outcome \<times> process) \<Rightarrow> process
     \<Rightarrow> 'a outcome \<times> process" where
  "substitute_attr attribute new_value body p =
     (let old_value = getattr attribute p;
          (r, p') = body (setattr attribute new_value p)
      in case r of
           Returns v \<Rightarrow> (Returns v, setattr attribute old_value p')
         | Raises e \<Rightarrow> (Raises e, p'))"

definition redirect_io ::
  "sys_stream \<Rightarrow> nat \<Rightarrow> (process \<Rightarrow> 'a outcome \<times> process) \<Rightarrow> process
     \<Rightarrow> 'a outcome \<times> process" where
  "redirect_io stream new_stream body p =
     (let old_stream = getstream stream p;
          (r, p') = body (setstream stream new_stream p)
      in case r of
           Returns v \<Rightarrow> (Returns v, setstream stream old_stream p')
         | Raises e \<Rightarrow> (Raises e, p'))"

definition change_cwd ::
  "env \<Rightarrow> string \<Rightarrow> (process \<Rightarrow> 'a outcome \<times> process) \<Rightarrow> process \<Rightarrow> 'a outcome \<times> process" where
  "change_cwd env new_cwd body p =
     (let (r, p') = body (p\<lparr>os_cwd := new_cwd\<rparr>)
      in case r of
           Returns v \<Rightarrow> (Returns v, p'\<lparr>os_cwd := SERVER_CWD env\<rparr>)
         | Raises e \<Rightarrow> (Raises e, p'))"

subsection \<open>Running the tool\<close>

text \<open>
  \<open>runpy.run_module(module, run_name="__main__")\<close>: the module sees \<open>sys.argv\<close>, the working
  directory and the text of \<open>sys.stdin\<close>, and writes to whatever \<open>sys.stdout\<close> and
  \<open>sys.stderr\<close> are at that moment.
\<close>

definition runpy_run_module :: "env \<Rightarrow> string \<Rightarrow> process \<Rightarrow> unit outcome \<times> process" where
  "runpy_run_module env module p =
     (let stdin_text = stream_content p (sys_stdin p);
          run = module_main env module (sys_argv p) (os_cwd p) stdin_text;
          p1 = p\<lparr>trace := trace p @ [RunpyRunModule module (sys_argv p) (os_cwd p) stdin_text]\<rparr>;
          p2 = stream_write (sys_stdout p1) (wrote_stdout run) p1;
          p3 = stream_write (sys_stderr p2) (wrote_stderr run) p2
      in (case ended run of None \<Rightarrow> Returns () | Some e \<Rightarrow> Raises e, p3))"

text \<open>
  \<open>_run_module\<close> of the source, and \<open>run_module\<close>, which holds \<open>CWD_LOCK\<close> for the whole
  call: one call runs at a time.
\<close>

definition private_run_module ::
  "env \<Rightarrow> string \<Rightarrow> string list \<Rightarrow> bool \<Rightarrow> string option \<Rightarrow> process
     \<Rightarrow> RunResult outcome \<times> process" where
  "private_run_module env module argv use_stdin source_text p =
     (let (str_output, p1) = CustomIO p;
          (str_error, p2) = CustomIO p1;
          (r, p3) =
            substitute_attr Attr_argv argv
              (redirect_io Stream_stdout str_output
                (redirect_io Stream_stderr str_error
                  (\<lambda>q. case source_text of
                          Some src \<Rightarrow>
                            if use_stdin then
                              (let (str_input, q1) = YapfIO q
                               in redirect_io Stream_stdin str_input
                                    (\<lambda>q2. runpy_run_module env module (stream_write str_input src q2))
                                    q1)
                            else runpy_run_module env module q
                        | None \<Rightarrow> runpy_run_module env module q)))
              p2
      in case r of
           Raises e \<Rightarrow>
             if e = SystemExit
             then (Returns \<lparr>stdout = get_value str_output p3, stderr = get_value str_error p3\<rparr>, p3)
             else (Raises e, p3)
         | Returns u \<Rightarrow>
             (Returns \<lparr>stdout = get_value str_output p3, stderr = get_value str_error p3\<rparr>, p3))"

definition run_module ::
  "env \<Rightarrow> string \<Rightarrow> string list \<Rightarrow> bool \<Rightarrow> string \<Rightarrow> string option \<Rightarrow> process
     \<Rightarrow> RunResult outcome \<times> process" where
  "run_module env module argv use_stdin cwd source_text p =
     (if is_same_path env (os_cwd p) cwd
      then private_run_module env module argv use_stdin source_text p
      else change_cwd env cwd (private_run_module env module argv use_stdin source_text) p)"

definition run_path ::
  "env \<Rightarrow> string list \<Rightarrow> bool \<Rightarrow> string \<Rightarrow> string option \<Rightarrow> process
     \<Rightarrow> RunResult outcome \<times> process" where
  "run_path env argv use_stdin cwd source_text p =
     (let input = (if use_stdin then source_text else None);
          p1 = p\<lparr>trace := trace p @ [Popen argv cwd use_stdin input]\<rparr>
      in case communicate env argv cwd use_stdin input of
           Raises e \<Rightarrow> (Raises e, p1)
         | Returns (out, err, returncode) \<Rightarrow> (Returns \<lparr>stdout = out, stderr = err\<rparr>, p1))"

section \<open>lsp\_jsonrpc.py\<close>

text \<open>
  Modelled from the spec: the module \<open>lsp_jsonrpc\<close>, which is not among the sources, and
  its function \<open>run_over_json_rpc\<close>.  The spec has it "forward the call as a JSON-RPC
  request to a formatter running under a different interpreter process", and has
  cross-interpreter failures "degraded to an empty result rather than propagated as a
  protocol fault": the call raises nothing; when the run under the other interpreter
  fails, the result carries the exception and no output; otherwise it carries the stdout
  and stderr of the run and no exception.
\<close>

definition run_over_json_rpc ::
  "env \<Rightarrow> string \<Rightarrow> string list \<Rightarrow> string \<Rightarrow> string list \<Rightarrow> bool \<Rightarrow> string \<Rightarrow> string
     \<Rightarrow> RpcRunResult" where
  "run_over_json_rpc env workspace interpreter module argv use_stdin cwd source_text =
     (case remote_run env workspace interpreter module argv use_stdin cwd source_text of
        Inl exception_text \<Rightarrow>
          \<lparr>rpc_stdout = [], rpc_stderr = [], rpc_exception = Some exception_text\<rparr>
      | Inr (out, err) \<Rightarrow>
          \<lparr>rpc_stdout = out, rpc_stderr = err, rpc_exception = None\<rparr>)"

section \<open>lsp\_server.py\<close>

definition TOOL_MODULE :: string where
  "TOOL_MODULE = ''yapf''"

definition TOOL_ARGS :: "string list" where
  "TOOL_ARGS = []"

abbreviation CRLF :: string where "CRLF \<equiv> [CR, LF]"

subsection \<open>Logging\<close>

definition show_message_log :: "string \<Rightarrow> MessageType \<Rightarrow> process \<Rightarrow> process" where
  "show_message_log message msg_type p = p\<lparr>trace := trace p @ [ShowMessageLog message msg_type]\<rparr>"

definition show_message :: "string \<Rightarrow> MessageType \<Rightarrow> process \<Rightarrow> process" where
  "show_message message msg_type p = p\<lparr>trace := trace p @ [ShowMessage message msg_type]\<rparr>"

definition log_to_output :: "string \<Rightarrow> process \<Rightarrow> process" where
  "log_to_output message p = show_message_log message Log p"

definition log_debug :: "string \<Rightarrow> settings \<Rightarrow> process \<Rightarrow> process" where
  "log_debug message settings p =
     (if s_showDebugLog settings then show_message_log message Log p else p)"

definition log_error :: "env \<Rightarrow> string \<Rightarrow> process \<Rightarrow> process" where
  "log_error env message p =
     (let p1 = show_message_log message Error p
      in if (case LS_SHOW_NOTIFICATION env of None \<Rightarrow> ''off'' | Some v \<Rightarrow> v)
              \<in> set [''onError'', ''onWarning'', ''always'']
         then show_message message Error p1
         else p1)"

subsection \<open>Settings of a document\<close>

text \<open>
  \<open>_get_document_key\<close> walks from the path of the document towards the root and returns
  the first path that is the \<open>workspaceFS\<close> of a stored value; \<open>_get_settings_by_document\<close>
  then looks that key up, and falls back to the global defaults for a document outside
  every workspace.  The key it looks up is always found, so the last branch below is never
  taken.
\<close>

definition get_global_defaults :: "env \<Rightarrow> string \<Rightarrow> string \<Rightarrow> string \<Rightarrow> settings" where
  "get_global_defaults env cwd workspaceFS workspace =
     \<lparr>s_cwd = cwd, s_workspaceFS = workspaceFS, s_workspace = workspace,
      s_path = (case g_path (GLOBAL_SETTINGS env) of None \<Rightarrow> [] | Some v \<Rightarrow> v),
      s_interpreter =
        (case g_interpreter (GLOBAL_SETTINGS env) of None \<Rightarrow> [sys_executable env] | Some v \<Rightarrow> v),
      s_args = (case g_args (GLOBAL_SETTINGS env) of None \<Rightarrow> [] | Some v \<Rightarrow> v),
      s_showDebugLog = (case g_showDebugLog (GLOBAL_SETTINGS env) of None \<Rightarrow> False | Some v \<Rightarrow> v),
      s_cellMagics =
        Some (case g_cellMagics (GLOBAL_SETTINGS env) of None \<Rightarrow> [] | Some v \<Rightarrow> v)\<rparr>"

definition get_document_key :: "env \<Rightarrow> document \<Rightarrow> string option" where
  "get_document_key env document =
     (if WORKSPACE_SETTINGS env \<noteq> []
      then find (\<lambda>document_workspace.
                   document_workspace \<in> set (map s_workspaceFS (WORKSPACE_SETTINGS env)))
             (path_and_parents env (path document))
      else None)"

definition get_settings_by_document :: "env \<Rightarrow> document \<Rightarrow> settings" where
  "get_settings_by_document env document =
     (case get_document_key env document of
        None \<Rightarrow>
          (let key = path_parent env (path document)
           in get_global_defaults env key key (from_fs_path env key))
      | Some key \<Rightarrow>
          (case find (\<lambda>s. s_workspaceFS s = key) (WORKSPACE_SETTINGS env) of
             Some s \<Rightarrow> s
           | None \<Rightarrow>
               (let key = path_parent env (path document)
                in get_global_defaults env key key (from_fs_path env key))))"

subsection \<open>Ignored documents\<close>

fun get_exclude_from_args :: "string list \<Rightarrow> string list" where
  "get_exclude_from_args (i # next_arg # rest) =
     (if i \<in> set [''-e'', ''--exclude'']
      then next_arg # get_exclude_from_args (next_arg # rest)
      else get_exclude_from_args (next_arg # rest))"
| "get_exclude_from_args args = []"

definition is_ignored :: "env \<Rightarrow> document \<Rightarrow> process \<Rightarrow> bool \<times> process" where
  "is_ignored env document p =
     (case import_module_yapf env of
        Some message \<Rightarrow> (False, log_error env message p)
      | None \<Rightarrow>
          (let settings = get_settings_by_document env document;
               code_workspace = s_workspaceFS settings;
               path1 = (if prefix code_workspace (path document)
                        then drop (length code_workspace) (path document)
                        else path document);
               path2 = lstrip ''/'' path1
           in case GetExcludePatternsForDir env code_workspace of
                Inl message \<Rightarrow> (False, log_error env message p)
              | Inr exclude \<Rightarrow>
                  if exclude \<noteq> [] \<and> list_ex (prefix ''./'') exclude
                  then (False, log_error env ''path in '--exclude' should not start with ./'' p)
                  else
                    (let exclude1 = map (rstrip (''/'' @ os_path_sep env)) exclude;
                         exclude_from_args = get_exclude_from_args (s_args settings);
                         exclude2 = exclude_from_args @ exclude1
                     in case IsIgnored env path2 exclude2 of
                          Inl message \<Rightarrow> (False, log_error env message p)
                        | Inr ignored \<Rightarrow> (ignored, p))))"

subsection \<open>Line endings\<close>

definition get_line_endings :: "string list \<Rightarrow> string option" where
  "get_line_endings lns =
     (case lns of
        [] \<Rightarrow> None
      | first_line # rest \<Rightarrow>
          if drop (length first_line - 2) first_line = CRLF then Some CRLF else Some [LF])"

definition match_line_endings :: "document \<Rightarrow> string \<Rightarrow> string" where
  "match_line_endings document text =
     (let expected = get_line_endings (splitlines_keepends (source document));
          actual = get_line_endings (splitlines_keepends text)
      in if actual = expected \<or> actual = None \<or> expected = None then text
         else str_replace (the actual) (the expected) text)"

subsection \<open>Running the tool on a document\<close>

text \<open>
  The three ways to run the tool, the branches of the dispatch in \<open>_run_tool_on_document\<close>:
  an executable, a request to a process under another interpreter, and a module run in
  this process.
\<close>

definition run_tool_by_path ::
  "env \<Rightarrow> string list \<Rightarrow> bool \<Rightarrow> string \<Rightarrow> string \<Rightarrow> process \<Rightarrow> RunResult outcome \<times> process" where
  "run_tool_by_path env argv use_stdin cwd source_text p =
     (let p1 = log_to_output (str_join '' '' argv) p;
          p2 = log_to_output (''CWD Server: '' @ cwd) p1
      in case run_path env argv use_stdin cwd (Some source_text) p2 of
           (Raises e, p3) \<Rightarrow> (Raises e, p3)
         | (Returns result, p3) \<Rightarrow>
             (Returns result,
              if stderr result \<noteq> [] then log_to_output (stderr result) p3 else p3))"

definition run_tool_by_rpc ::
  "env \<Rightarrow> settings \<Rightarrow> string list \<Rightarrow> bool \<Rightarrow> string \<Rightarrow> string \<Rightarrow> process
     \<Rightarrow> RunResult outcome \<times> process" where
  "run_tool_by_rpc env settings argv use_stdin cwd source_text p =
     (let p1 = log_to_output (str_join '' '' (s_interpreter settings @ [''-m''] @ argv)) p;
          p2 = log_to_output (''CWD Linter: '' @ cwd) p1;
          p3 = p2\<lparr>trace := trace p2 @
                 [JsonRpcRequest (s_workspaceFS settings) (s_interpreter settings) TOOL_MODULE argv
                    use_stdin cwd source_text]\<rparr>;
          result = run_over_json_rpc env (s_workspaceFS settings) (s_interpreter settings)
                     TOOL_MODULE argv use_stdin cwd source_text
      in if (case rpc_exception result of None \<Rightarrow> False | Some e \<Rightarrow> e \<noteq> [])
         then (Returns \<lparr>stdout = rpc_stdout result, stderr = rpc_stderr result\<rparr>,
               log_error env (the (rpc_exception result)) p3)
         else (Returns \<lparr>stdout = rpc_stdout result, stderr = rpc_stderr result\<rparr>,
               if rpc_stderr result \<noteq> [] then log_to_output (rpc_stderr result) p3 else p3))"

definition run_tool_as_module ::
  "env \<Rightarrow> string list \<Rightarrow> bool \<Rightarrow> string \<Rightarrow> string \<Rightarrow> process \<Rightarrow> RunResult outcome \<times> process" where
  "run_tool_as_module env argv use_stdin cwd source_text p =
     (let p1 = log_to_output (str_join '' '' ([sys_executable env, ''-m''] @ argv)) p;
          p2 = log_to_output (''CWD Linter: '' @ cwd) p1
      in case substitute_attr Attr_path (sys_path p2)
                (\<lambda>q. case run_module env TOOL_MODULE argv use_stdin cwd (Some source_text) q of
                        (Raises e, q1) \<Rightarrow>
                          (Raises e, if e \<noteq> SystemExit then log_error env (format_exc env e) q1 else q1)
                      | (Returns result, q1) \<Rightarrow> (Returns result, q1))
                p2 of
           (Raises e, p3) \<Rightarrow> (Raises e, p3)
         | (Returns result, p3) \<Rightarrow>
             (Returns result,
              if stderr result \<noteq> [] then log_to_output (stderr result) p3 else p3))"

text \<open>
  \<open>_run_tool_on_document\<close>, in the order of the source.  A notebook cell that does not parse
  is taken to hold magics; a cell whose source, up to trailing blanks, ends with a line
  feed has a blank trail.
\<close>

definition notebook_cell :: "document \<Rightarrow> bool" where
  "notebook_cell document \<longleftrightarrow> prefix ''vscode-notebook-cell'' (uri document)"

definition has_magics :: "env \<Rightarrow> document \<Rightarrow> bool" where
  "has_magics env document \<longleftrightarrow>
     notebook_cell document \<and> ast_parse env (str_replace CRLF [LF] (source document)) = None"

definition blank_cell_trail :: "document \<Rightarrow> bool" where
  "blank_cell_trail document \<longleftrightarrow>
     notebook_cell document \<and>
     suffix [LF] (rstrip [CHR '' '', TAB] (str_replace CRLF [LF] (source document)))"

definition configured_magics :: "settings \<Rightarrow> string list" where
  "configured_magics settings = (case s_cellMagics settings of None \<Rightarrow> [] | Some m \<Rightarrow> m)"

text \<open>
  The choice of the backend: \<open>use_path\<close> when the \<open>path\<close> setting is not empty, otherwise
  \<open>use_rpc\<close> when an interpreter is set whose first entry is not the current interpreter.
\<close>

definition use_path :: "settings \<Rightarrow> bool" where
  "use_path settings \<longleftrightarrow> s_path settings \<noteq> []"

definition use_rpc :: "env \<Rightarrow> settings \<Rightarrow> bool" where
  "use_rpc env settings \<longleftrightarrow>
     \<not> use_path settings \<and> s_interpreter settings \<noteq> [] \<and>
     \<not> is_current_interpreter env (hd (s_interpreter settings))"

text \<open>The argument vector: the \<open>path\<close> setting or the module name, then \<open>TOOL_ARGS\<close>, the
  \<open>args\<close> setting and the extra arguments, then the path of the document unless it is sent
  on stdin.\<close>

definition tool_argv :: "settings \<Rightarrow> document \<Rightarrow> bool \<Rightarrow> string list \<Rightarrow> string list" where
  "tool_argv settings document use_stdin extra_args =
     (if use_path settings then s_path settings else [TOOL_MODULE])
     @ TOOL_ARGS @ s_args settings @ extra_args
     @ (if use_stdin then [] else [path document])"

text \<open>The source handed to the tool: with \<open>\r\n\<close> replaced for an executable, and with the
  magics masked when the cell holds magics.\<close>

definition tool_input :: "env \<Rightarrow> settings \<Rightarrow> document \<Rightarrow> string" where
  "tool_input env settings document =
     (let source1 = (if use_path settings then str_replace CRLF [LF] (source document)
                     else source document)
      in if has_magics env document
         then encode_cell_magic env source1 (configured_magics settings)
         else source1)"

text \<open>What becomes of the tool's stdout: the magics are restored, and in a notebook cell
  without a blank trail the line feeds at the end are dropped.\<close>

definition tool_output :: "env \<Rightarrow> document \<Rightarrow> string \<Rightarrow> string" where
  "tool_output env document out =
     (let out1 = (if has_magics env document then decode_cell_magic out else out)
      in if notebook_cell document \<and> \<not> blank_cell_trail document then rstrip [LF] out1
         else out1)"

definition run_tool_on_document ::
  "env \<Rightarrow> document \<Rightarrow> bool \<Rightarrow> string list option \<Rightarrow> process
     \<Rightarrow> RunResult option outcome \<times> process" where
  "run_tool_on_document env document use_stdin extra_args_opt p =
     (if is_stdlib_file env (path document) then (Returns None, p)
      else
        (let extra_args = (case extra_args_opt of None \<Rightarrow> [] | Some a \<Rightarrow> a);
             settings = get_settings_by_document env document;
             cwd = s_cwd settings;
             argv = tool_argv settings document use_stdin extra_args;
             p1 = (if has_magics env document
                   then log_debug (''cellMagics: '' @ repr_list env (configured_magics settings))
                          settings p
                   else p);
             source_text = tool_input env settings document
         in case (if use_path settings
                  then run_tool_by_path env argv use_stdin cwd source_text p1
                  else if use_rpc env settings
                  then run_tool_by_rpc env settings argv use_stdin cwd source_text p1
                  else run_tool_as_module env argv use_stdin cwd source_text p1) of
              (Raises e, p2) \<Rightarrow> (Raises e, p2)
            | (Returns result, p2) \<Rightarrow>
                (let out = tool_output env document (stdout result)
                 in (Returns (Some (result\<lparr>stdout := out\<rparr>)),
                     log_debug (uri document @ '' :'' @ CRLF @ out) settings p2))))"

subsection \<open>The handlers\<close>

definition formatting_helper ::
  "env \<Rightarrow> document \<Rightarrow> string list option \<Rightarrow> process \<Rightarrow> TextEdit list option outcome \<times> process" where
  "formatting_helper env document extra_args p =
     (case is_ignored env document p of
        (True, p1) \<Rightarrow> (Returns None, p1)
      | (False, p1) \<Rightarrow>
          (case run_tool_on_document env document True extra_args p1 of
             (Raises e, p2) \<Rightarrow> (Raises e, p2)
           | (Returns None, p2) \<Rightarrow> (Raises AttributeError, p2)
           | (Returns (Some result), p2) \<Rightarrow>
               if stdout result \<noteq> [] then
                 (let new_source = match_line_endings document (stdout result)
                  in (Returns (Some
                        [\<lparr>edit_range =
                            \<lparr>range_start = \<lparr>line = 0, character = 0\<rparr>,
                             range_end = \<lparr>line = int (length (lines document)), character = 0\<rparr>\<rparr>,
                          new_text = new_source\<rparr>]),
                      p2))
               else (Returns None, p2)))"

definition formatting ::
  "env \<Rightarrow> document \<Rightarrow> process \<Rightarrow> TextEdit list option outcome \<times> process" where
  "formatting env document p =
     (case formatting_helper env document None p of
        (Raises e, p1) \<Rightarrow> (Raises e, p1)
      | (Returns edits, p1) \<Rightarrow>
          (case edits of
             Some (e # es) \<Rightarrow> (Returns (Some (e # es)), p1)
           | _ \<Rightarrow> (Returns None, p1)))"

definition range_formatting ::
  "env \<Rightarrow> document \<Rightarrow> Range \<Rightarrow> process \<Rightarrow> TextEdit list option outcome \<times> process" where
  "range_formatting env document rng p =
     (let start = line (range_start rng) + 1;
          end_line = line (range_end rng) + 1;
          extra_args = [''-l'', str_int start @ ''-'' @ str_int end_line]
      in case formatting_helper env document (Some extra_args) p of
           (Raises e, p1) \<Rightarrow> (Raises e, p1)
         | (Returns edits, p1) \<Rightarrow>
             (case edits of
                Some (e # es) \<Rightarrow> (Returns (Some (e # es)), p1)
              | _ \<Rightarrow> (Returns None, p1)))"

text \<open>
  The loop of \<open>on_type_formatting\<close> over the statements of the module: it stops at the first
  statement that spans the position; when none does, the names keep the values of the last
  statement, and with no statement at all they are unbound.
\<close>

fun find_statement :: "int \<Rightarrow> (int \<times> int) list \<Rightarrow> (int \<times> int) option" where
  "find_statement position_lineno [] = None"
| "find_statement position_lineno ((lineno, end_lineno) # body) =
     (if position_lineno \<ge> lineno \<and> position_lineno \<le> end_lineno then Some (lineno, end_lineno)
      else (case body of
              [] \<Rightarrow> Some (lineno, end_lineno)
            | next_node # later \<Rightarrow> find_statement position_lineno body))"

definition on_type_formatting ::
  "env \<Rightarrow> document \<Rightarrow> Position \<Rightarrow> process \<Rightarrow> TextEdit list option outcome \<times> process" where
  "on_type_formatting env document position p =
     (let source0 = str_replace CRLF [LF] (source document)
      in case py_index (lines document) (line position - 1) of
           Raises e \<Rightarrow> (Raises e, p)
         | Returns previous \<Rightarrow>
             if rstrip [CHR '' '', TAB, LF] previous = [] \<or> suffix '','' (rstrip [LF] previous)
             then (Returns None, p)
             else
               (let source1 =
                      (if notebook_cell document
                       then encode_cell_magic env source0
                              (configured_magics (get_settings_by_document env document))
                       else source0)
                in case ast_parse env source1 of
                     None \<Rightarrow> (Returns None, p)
                   | Some body \<Rightarrow>
                       (case find_statement (line position) body of
                          None \<Rightarrow> (Raises UnboundLocalError, p)
                        | Some (start, end_line) \<Rightarrow>
                            (let extra_args = [''-l'', str_int start @ ''-'' @ str_int end_line]
                             in case formatting_helper env document (Some extra_args) p of
                                  (Raises e, p1) \<Rightarrow> (Raises e, p1)
                                | (Returns edits, p1) \<Rightarrow>
                                    (case edits of
                                       Some (e # es) \<Rightarrow> (Returns (Some (e # es)), p1)
                                     | _ \<Rightarrow> (Returns None, p1))))))"

section \<open>Observing a run\<close>

text \<open>
  The events of a trace that run the formatter, and the argument vector each one carries.
\<close>

fun is_invocation :: "event \<Rightarrow> bool" where
  "is_invocation (Popen argv cwd use_stdin input) = True"
| "is_invocation (JsonRpcRequest workspace interpreter module argv use_stdin cwd source_text) = True"
| "is_invocation (RunpyRunModule module argv cwd stdin_text) = True"
| "is_invocation (ShowMessageLog message msg_type) = False"
| "is_invocation (ShowMessage message msg_type) = False"

definition invocations :: "event list \<Rightarrow> event list" where
  "invocations events = filter is_invocation events"

fun invocation_argv :: "event \<Rightarrow> string list" where
  "invocation_argv (Popen argv cwd use_stdin input) = argv"
| "invocation_argv (JsonRpcRequest workspace interpreter module argv use_stdin cwd source_text) = argv"
| "invocation_argv (RunpyRunModule module argv cwd stdin_text) = argv"
| "invocation_argv (ShowMessageLog message msg_type) = []"
| "invocation_argv (ShowMessage message msg_type) = []"

text \<open>What \<open>log_error\<close> sends to the editor, and the working directory of a run in this
  process: \<open>run_module\<close> changes directory unless it is already there.\<close>

definition log_error_events :: "env \<Rightarrow> string \<Rightarrow> event list" where
  "log_error_events env message =
     ShowMessageLog message Error #
       (if (case LS_SHOW_NOTIFICATION env of None \<Rightarrow> ''off'' | Some v \<Rightarrow> v)
             \<in> set [''onError'', ''onWarning'', ''always'']
        then [ShowMessage message Error] else [])"

definition run_cwd :: "env \<Rightarrow> process \<Rightarrow> string \<Rightarrow> string" where
  "run_cwd env p cwd = (if is_same_path env (os_cwd p) cwd then os_cwd p else cwd)"

section \<open>Example inputs\<close>

text \<open>
  Concrete collaborators and documents, used to evaluate the definitions.  In
  \<open>example_env\<close> the pattern recognises every line that starts with \<open>%\<close>, paths are already
  normal, no workspace is configured, the formatter run in this process writes
  \<open>x = 1\n\<close> and ends with \<open>SystemExit\<close> (as a \<open>__main__\<close> that calls \<open>sys.exit\<close> does), and
  every source parses as a single statement on line 1.
\<close>

definition example_env :: env where
  "example_env =
     \<lparr>PYTHON_CELL_MAGICS = [''time'', ''timeit''],
      re_search = (\<lambda>pattern code_line. prefix ''%'' code_line),
      normcase_normpath = (\<lambda>p. p),
      site_paths = [''/usr/lib/python3/site-packages''],
      sys_executable = ''/usr/bin/python3'',
      SERVER_CWD = ''/srv'',
      os_path_sep = ''/'',
      LS_SHOW_NOTIFICATION = None,
      path_and_parents = (\<lambda>p. [p]),
      path_parent = (\<lambda>p. ''/ws''),
      from_fs_path = (\<lambda>p. ''file://'' @ p),
      module_main = (\<lambda>module argv cwd stdin_text.
        \<lparr>wrote_stdout = ''x = 1'' @ [LF], wrote_stderr = [], ended = Some SystemExit\<rparr>),
      communicate = (\<lambda>argv cwd use_stdin input. Returns (''x = 1'' @ [LF], [], 0)),
      remote_run = (\<lambda>workspace interpreter module argv use_stdin cwd source_text.
        Inr (''x = 1'' @ [LF], [])),
      ast_parse = (\<lambda>source_text. Some [(1, 1)]),
      import_module_yapf = None,
      GetExcludePatternsForDir = (\<lambda>dir. Inr []),
      IsIgnored = (\<lambda>path exclude. Inr False),
      format_exc = (\<lambda>e. ''Traceback''),
      repr_list = (\<lambda>l. ''[]''),
      WORKSPACE_SETTINGS = [],
      GLOBAL_SETTINGS =
        \<lparr>g_path = None, g_interpreter = None, g_args = None, g_showDebugLog = None,
         g_cellMagics = None\<rparr>\<rparr>"

definition example_process :: process where
  "example_process =
     \<lparr>sys_argv = [''lsp_server.py''], sys_path = [''/srv/libs''],
      sys_stdout = 1, sys_stderr = 2, sys_stdin = 0, os_cwd = ''/srv'',
      stream_content = (\<lambda>a. []), next_stream = 3, trace = []\<rparr>"

definition example_document :: document where
  "example_document =
     \<lparr>uri = ''file:///ws/a.py'', path = ''/ws/a.py'', source = ''x=1'' @ [LF],
      lines = [''x=1'' @ [LF]]\<rparr>"

text \<open>A document whose only line ends with a comma.\<close>

definition comma_document :: document where
  "comma_document =
     \<lparr>uri = ''file:///ws/b.py'', path = ''/ws/b.py'', source = ''x = [1,'' @ [LF],
      lines = [''x = [1,'' @ [LF]]\<rparr>"

text \<open>A document with \<open>\r\n\<close> line endings.\<close>

definition crlf_document :: document where
  "crlf_document =
     \<lparr>uri = ''file:///ws/c.py'', path = ''/ws/c.py'',
      source = ''a=1'' @ CRLF @ ''b=2'' @ CRLF,
      lines = [''a=1'' @ CRLF, ''b=2'' @ CRLF]\<rparr>"

text \<open>A document under a site-packages path.\<close>

definition site_packages_document :: document where
  "site_packages_document =
     \<lparr>uri = ''file:///usr/lib/python3/site-packages/m.py'',
      path = ''/usr/lib/python3/site-packages/m.py'', source = ''x=1'' @ [LF],
      lines = [''x=1'' @ [LF]]\<rparr>"

text \<open>Collaborators for which no source parses.\<close>

definition unparsable_env :: env where
  "unparsable_env = example_env\<lparr>ast_parse := (\<lambda>source_text. None)\<rparr>"

text \<open>
  Collaborators with the \<open>path\<close> setting naming an executable: one that is not there, so
  that starting it raises, and one that writes a formatted text and a message and exits
  with status 1.
\<close>

definition missing_executable_env :: env where
  "missing_executable_env =
     example_env
       \<lparr>communicate := (\<lambda>argv cwd use_stdin input. Raises (Exception ''FileNotFoundError'')),
        GLOBAL_SETTINGS :=
          \<lparr>g_path = Some [''/opt/yapf''], g_interpreter = None, g_args = None,
           g_showDebugLog = None, g_cellMagics = None\<rparr>\<rparr>"

definition failing_executable_env :: env where
  "failing_executable_env =
     example_env
       \<lparr>communicate := (\<lambda>argv cwd use_stdin input. Returns (''x = 1'' @ [LF], ''warning'', 1)),
        GLOBAL_SETTINGS :=
          \<lparr>g_path = Some [''/opt/yapf''], g_interpreter = None, g_args = None,
           g_showDebugLog = None, g_cellMagics = None\<rparr>\<rparr>"

text \<open>Collaborators whose formatter, run in this process, raises an exception.\<close>

definition crashing_tool_env :: env where
  "crashing_tool_env =
     example_env
       \<lparr>module_main := (\<lambda>module argv cwd stdin_text.
          \<lparr>wrote_stdout = [], wrote_stderr = [], ended = Some (Exception ''RuntimeError'')\<rparr>)\<rparr>"

text \<open>
  Collaborators with another interpreter configured, under which the run of the formatter
  fails.
\<close>

definition rpc_exception_env :: env where
  "rpc_exception_env =
     example_env
       \<lparr>remote_run := (\<lambda>workspace interpreter module argv use_stdin cwd source_text.
          Inl ''Traceback''),
        GLOBAL_SETTINGS :=
          \<lparr>g_path = None, g_interpreter = Some [''/venv/bin/python''], g_args = None,
           g_showDebugLog = None, g_cellMagics = None\<rparr>\<rparr>"


section \<open>Properties\<close>

subsection \<open>Strings\<close>


lemma str_split_not_Nil: "str_split sep s \<noteq> []"
  by (induction s) (auto split: list.splits)

lemma join_split: "str_join [sep] (str_split sep s) = s"
proof (induction s)
  case Nil show ?case by simp
next
  case (Cons c s)
  obtain l ls where sp: "str_split sep s = l # ls"
    using str_split_not_Nil[of sep s] by (cases "str_split sep s") auto
  show ?case using Cons sp by (cases ls) auto
qed

lemma prefix_append_sep:
  assumes "sep \<notin> set old" "prefix old (l @ sep # rest)"
  shows "prefix old l"
proof -
  from assms(2) have "prefix old l \<or> (\<exists>us. old = l @ us \<and> prefix us (sep # rest))"
    by (simp add: prefix_append)
  then show ?thesis
  proof
    assume "prefix old l" then show ?thesis .
  next
    assume "\<exists>us. old = l @ us \<and> prefix us (sep # rest)"
    then obtain us where u: "old = l @ us" "prefix us (sep # rest)" by blast
    show ?thesis
    proof (cases us)
      case Nil then show ?thesis using u by simp
    next
      case (Cons a as)
      then have "a = sep" using u(2) by simp
      then show ?thesis using assms(1) u(1) Cons by simp
    qed
  qed
qed

lemma replace_occurrences_sep:
  assumes "sep \<notin> set old" "old \<noteq> []"
  shows "replace_occurrences old new (l @ sep # rest) =
         replace_occurrences old new l @ sep # replace_occurrences old new rest"
proof (induction l rule: length_induct)
  case (1 l)
  show ?case
  proof (cases l)
    case Nil
    have "\<not> prefix old (sep # rest)"
      using assms by (cases old) auto
    then show ?thesis using Nil by simp
  next
    case (Cons c cs)
    show ?thesis
    proof (cases "prefix old (c # cs)")
      case True
      then have le: "length old \<le> length l" using Cons prefix_length_le by blast
      have p: "prefix old (c # cs @ sep # rest)"
        using True by (metis append_Cons prefix_prefix)
      have lt: "length (drop (length old) l) < length l"
        using assms(2) Cons by simp
      have "drop (length old) (l @ sep # rest) = drop (length old) l @ sep # rest"
        using le by simp
      then show ?thesis
        using 1 lt True p Cons assms(2) by simp
    next
      case False
      then have "\<not> prefix old (c # cs @ sep # rest)"
        using prefix_append_sep[OF assms(1), of "c # cs" rest] by auto
      then show ?thesis using 1 False Cons by simp
    qed
  qed
qed

lemma replace_occurrences_join:
  assumes "LF \<notin> set old" "old \<noteq> []"
  shows "replace_occurrences old new (str_join [LF] ls) =
         str_join [LF] (map (replace_occurrences old new) ls)"
proof (induction ls rule: induct_list012)
  case (3 l m ls)
  then show ?case using replace_occurrences_sep[OF assms, of new l] by simp
qed simp_all


lemma encode_line_simps:
  "replace_occurrences ''%'' new [] = []"
  "replace_occurrences ''%'' new (CHR ''%'' # cs) = new @ replace_occurrences ''%'' new cs"
  "c \<noteq> CHR ''%'' \<Longrightarrow> replace_occurrences ''%'' new (c # cs) = c # replace_occurrences ''%'' new cs"
  by simp_all

lemma encoded_no_percent_head:
  "\<not> prefix ''%'' (replace_occurrences ''%'' mask cs)"
  by (cases cs) (auto simp: mask_def)

lemma encoded_no_mask_head:
  assumes "c \<noteq> CHR ''%''"
  shows "\<not> prefix mask (c # replace_occurrences ''%'' mask cs)"
proof (cases cs)
  case Nil
  then show ?thesis by (simp add: mask_def)
next
  case (Cons d ds)
  show ?thesis
  proof (cases "d = CHR ''%''")
    case True
    then show ?thesis using Cons by (simp add: mask_def)
  next
    case False
    have "\<not> prefix [CHR ''%'', NUL, CHR ''#''] (replace_occurrences ''%'' mask ds)"
      by (cases ds) (auto simp: mask_def)
    then show ?thesis using Cons False by (simp add: mask_def)
  qed
qed

lemma decode_encode_line:
  "replace_occurrences mask ''%'' (replace_occurrences ''%'' mask l) = l"
proof (induction l)
  case Nil
  show ?case by simp
next
  case (Cons c cs)
  show ?case
  proof (cases "c = CHR ''%''")
    case True
    have "replace_occurrences mask ''%'' (mask @ replace_occurrences ''%'' mask cs)
          = ''%'' @ replace_occurrences mask ''%'' (replace_occurrences ''%'' mask cs)"
      by (simp add: mask_def)
    then show ?thesis using True Cons by simp
  next
    case False
    have "replace_occurrences mask ''%'' (c # replace_occurrences ''%'' mask cs)
          = c # replace_occurrences mask ''%'' (replace_occurrences ''%'' mask cs)"
      using encoded_no_mask_head[OF False, of cs] by simp
    then show ?thesis using False Cons by simp
  qed
qed

lemma replace_absent:
  "\<not> contains old l \<Longrightarrow> replace_occurrences old new l = l"
  by (induction l) auto

lemma mask_no_LF: "LF \<notin> set mask" "mask \<noteq> []"
  by (simp_all add: mask_def)


subsection \<open>Lines and line endings\<close>

lemma LF_boundary: "is_line_boundary LF" "is_line_boundary CR"
  by (simp_all add: is_line_boundary_def)

lemma splitlines_from_LF:
  "\<forall>c\<in>set xs. \<not> is_line_boundary c \<Longrightarrow>
   splitlines_from cur (xs @ LF # rest) = (cur @ xs @ [LF]) # splitlines_from [] rest"
proof (induction xs arbitrary: cur)
  case Nil
  show ?case by (cases rest) (simp_all add: LF_boundary)
next
  case (Cons x xs)
  then have x: "\<not> is_line_boundary x" and "x \<noteq> CR" by (auto simp: LF_boundary)
  obtain d cs where dc: "xs @ LF # rest = d # cs" by (cases xs) auto
  have "splitlines_from cur ((x # xs) @ LF # rest) = splitlines_from (cur @ [x]) (xs @ LF # rest)"
    using x \<open>x \<noteq> CR\<close> dc by simp
  then show ?case using Cons by simp
qed

lemma splitlines_from_CRLF:
  "\<forall>c\<in>set xs. \<not> is_line_boundary c \<Longrightarrow>
   splitlines_from cur (xs @ CR # LF # rest) = (cur @ xs @ [CR, LF]) # splitlines_from [] rest"
proof (induction xs arbitrary: cur)
  case Nil
  show ?case by simp
next
  case (Cons x xs)
  then have x: "\<not> is_line_boundary x" by auto
  obtain d cs where dc: "xs @ CR # LF # rest = d # cs" by (cases xs) auto
  have "x \<noteq> CR" using x LF_boundary by auto
  then have "splitlines_from cur ((x # xs) @ CR # LF # rest)
        = splitlines_from (cur @ [x]) (xs @ CR # LF # rest)"
    using x dc by simp
  then show ?case using Cons by simp
qed

lemma first_line_LF_shape:
  assumes "splitlines_from cur s = l # ls" "suffix [LF] l" "\<forall>c\<in>set cur. \<not> is_line_boundary c"
  shows "\<exists>xs rest. (\<forall>c\<in>set xs. \<not> is_line_boundary c) \<and>
           ((s = xs @ LF # rest \<and> l = cur @ xs @ [LF]) \<or>
            (s = xs @ CR # LF # rest \<and> l = cur @ xs @ [CR, LF]))"
  using assms
proof (induction cur s arbitrary: l ls rule: splitlines_from.induct)
  case (1 cur)
  then have "l = cur" "cur \<noteq> []" by (auto split: if_splits)
  with 1(2) have "LF \<in> set cur" by (auto simp: suffix_def)
  with 1(3) show ?case using LF_boundary by blast
next
  case (2 cur c)
  then have l: "l = cur @ [c]" by simp
  with "2.prems"(2) have "c = LF" by (simp add: suffix_def)
  then show ?case using l by (intro exI[of _ "[]"] exI[of _ "[]"]) auto
next
  case (3 cur c d cs)
  show ?case
  proof (cases "c = CR \<and> d = LF")
    case True
    then have "l = cur @ [CR, LF]" using "3.prems"(1) by simp
    then show ?thesis using True by (intro exI[of _ "[]"] exI[of _ cs]) auto
  next
    case nocrlf: False
    show ?thesis
    proof (cases "is_line_boundary c")
      case True
      then have l: "l = cur @ [c]" using "3.prems"(1) nocrlf by auto
      with "3.prems"(2) have "c = LF" by (simp add: suffix_def)
      then show ?thesis using l by (intro exI[of _ "[]"] exI[of _ "d # cs"]) auto
    next
      case False
      then have eq: "splitlines_from (cur @ [c]) (d # cs) = l # ls"
        using "3.prems"(1) nocrlf by auto
      have bf: "\<forall>x\<in>set (cur @ [c]). \<not> is_line_boundary x" using False "3.prems"(3) by auto
      from "3.IH"(3)[OF nocrlf False eq "3.prems"(2) bf]
      obtain xs rest where xs: "\<forall>c\<in>set xs. \<not> is_line_boundary c"
        "(d # cs = xs @ LF # rest \<and> l = (cur @ [c]) @ xs @ [LF]) \<or>
         (d # cs = xs @ CR # LF # rest \<and> l = (cur @ [c]) @ xs @ [CR, LF])"
        by blast
      show ?thesis
        using xs False by (intro exI[of _ "c # xs"] exI[of _ rest]) auto
    qed
  qed
qed


lemma replace_LF_prefix:
  "LF \<notin> set xs \<Longrightarrow>
   replace_occurrences [LF] new (xs @ LF # rest) = xs @ new @ replace_occurrences [LF] new rest"
  by (induction xs) auto

lemma replace_CRLF_prefix:
  "CR \<notin> set xs \<Longrightarrow>
   replace_occurrences CRLF new (xs @ CR # LF # rest) = xs @ new @ replace_occurrences CRLF new rest"
  by (induction xs) auto

lemma replace_LF_everywhere:
  "replace_occurrences [LF] new s = concat (map (\<lambda>c. if c = LF then new else [c]) s)"
  by (induction s) auto

lemma detect_LF_line:
  assumes "\<forall>c\<in>set xs. \<not> is_line_boundary c"
  shows "get_line_endings ((xs @ [LF]) # ls) = Some [LF]"
proof (cases xs rule: rev_cases)
  case Nil
  then show ?thesis by (simp add: get_line_endings_def)
next
  case (snoc ys y)
  then have "y \<noteq> CR" using assms LF_boundary by auto
  then show ?thesis using snoc by (simp add: get_line_endings_def)
qed

lemma detect_CRLF_line: "get_line_endings ((xs @ [CR, LF]) # ls) = Some CRLF"
  by (simp add: get_line_endings_def)

lemma splitlines_from_not_Nil: "s \<noteq> [] \<Longrightarrow> splitlines_from cur s \<noteq> []"
  by (induction cur s rule: splitlines_from.induct) auto

lemma detect_nonempty:
  assumes "s \<noteq> []"
  shows "get_line_endings (splitlines_keepends s) = Some CRLF
         \<or> get_line_endings (splitlines_keepends s) = Some [LF]"
proof -
  obtain l ls where "splitlines_keepends s = l # ls"
    using splitlines_from_not_Nil[OF assms, of "[]"]
    by (cases "splitlines_keepends s") (auto simp: splitlines_keepends_def)
  then show ?thesis by (simp add: get_line_endings_def)
qed

lemma detect_empty: "get_line_endings (splitlines_keepends []) = None"
  by (simp add: get_line_endings_def splitlines_keepends_def)

lemma redetect:
  assumes first: "splitlines_keepends text = l # ls" and lf: "suffix [LF] l"
    and src: "source document \<noteq> []"
  shows "get_line_endings (splitlines_keepends (match_line_endings document text))
         = get_line_endings (splitlines_keepends (source document))"
proof -
  let ?expected = "get_line_endings (splitlines_keepends (source document))"
  from first_line_LF_shape[OF first[unfolded splitlines_keepends_def] lf]
  obtain xs rest where bf: "\<forall>c\<in>set xs. \<not> is_line_boundary c"
    and shape: "(text = xs @ LF # rest \<and> l = xs @ [LF]) \<or>
                (text = xs @ CR # LF # rest \<and> l = xs @ [CR, LF])"
    by auto
  have noLF: "LF \<notin> set xs" and noCR: "CR \<notin> set xs"
    using bf LF_boundary by auto
  from shape show ?thesis
  proof
    assume a: "text = xs @ LF # rest \<and> l = xs @ [LF]"
    then have actual: "get_line_endings (splitlines_keepends text) = Some [LF]"
      using first detect_LF_line[OF bf] by simp
    from detect_nonempty[OF src] show ?thesis
    proof
      assume e: "?expected = Some CRLF"
      have "match_line_endings document text = xs @ CR # LF # replace_occurrences [LF] CRLF rest"
        using actual e a replace_LF_prefix[OF noLF, of CRLF rest]
        by (simp add: match_line_endings_def str_replace_def)
      then have "splitlines_keepends (match_line_endings document text)
                 = (xs @ [CR, LF]) # splitlines_from [] (replace_occurrences [LF] CRLF rest)"
        using splitlines_from_CRLF[OF bf, of "[]"] by (simp add: splitlines_keepends_def)
      then show ?thesis using e detect_CRLF_line by simp
    next
      assume e: "?expected = Some [LF]"
      then have "match_line_endings document text = text"
        using actual by (simp add: match_line_endings_def)
      then show ?thesis using actual e by simp
    qed
  next
    assume a: "text = xs @ CR # LF # rest \<and> l = xs @ [CR, LF]"
    then have actual: "get_line_endings (splitlines_keepends text) = Some CRLF"
      using first detect_CRLF_line by simp
    from detect_nonempty[OF src] show ?thesis
    proof
      assume e: "?expected = Some CRLF"
      then have "match_line_endings document text = text"
        using actual by (simp add: match_line_endings_def)
      then show ?thesis using actual e by simp
    next
      assume e: "?expected = Some [LF]"
      have "match_line_endings document text = xs @ LF # replace_occurrences CRLF [LF] rest"
        using actual e a replace_CRLF_prefix[OF noCR, of "[LF]" rest]
        by (simp add: match_line_endings_def str_replace_def)
      then have "splitlines_keepends (match_line_endings document text)
                 = (xs @ [LF]) # splitlines_from [] (replace_occurrences CRLF [LF] rest)"
        using splitlines_from_LF[OF bf, of "[]"] by (simp add: splitlines_keepends_def)
      then show ?thesis using e detect_LF_line[OF bf] by simp
    qed
  qed
qed

subsection \<open>Logging only appends messages\<close>

lemma log_to_output_fields [simp]:
  "trace (log_to_output m p) = trace p @ [ShowMessageLog m Log]"
  "os_cwd (log_to_output m p) = os_cwd p"
  "sys_path (log_to_output m p) = sys_path p"
  by (simp_all add: log_to_output_def show_message_log_def)

lemma log_debug_fields [simp]:
  "trace (log_debug m s p) = trace p @ (if s_showDebugLog s then [ShowMessageLog m Log] else [])"
  "os_cwd (log_debug m s p) = os_cwd p"
  by (simp_all add: log_debug_def show_message_log_def)

lemma log_error_trace:
  "trace (log_error env m p) = trace p @ log_error_events env m"
  by (simp add: log_error_def log_error_events_def show_message_log_def show_message_def Let_def)

lemma log_error_events_invocations [simp]: "invocations (log_error_events env m) = []"
  by (simp add: log_error_events_def invocations_def)

lemma invocations_append [simp]: "invocations (xs @ ys) = invocations xs @ invocations ys"
  by (simp add: invocations_def)

lemma invocations_simps [simp]:
  "invocations [] = []"
  "invocations (ShowMessageLog m t # es) = invocations es"
  "invocations (ShowMessage m t # es) = invocations es"
  "invocations (Popen a c u i # es) = Popen a c u i # invocations es"
  "invocations (JsonRpcRequest w ipr m a u c s # es) = JsonRpcRequest w ipr m a u c s # invocations es"
  "invocations (RunpyRunModule m a c s # es) = RunpyRunModule m a c s # invocations es"
  by (simp_all add: invocations_def)

lemma log_invocations [simp]:
  "invocations (trace (log_to_output m p)) = invocations (trace p)"
  "invocations (trace (log_debug m s p)) = invocations (trace p)"
  "invocations (trace (log_error env m p)) = invocations (trace p)"
  by (simp_all add: log_error_trace)

subsection \<open>The run in this process\<close>

lemma private_run_module_stdin_fst:
  "fst (private_run_module env module argv True (Some src) p) =
     (let run = module_main env module argv (os_cwd p) src
      in case ended run of
           None \<Rightarrow> Returns \<lparr>stdout = wrote_stdout run, stderr = wrote_stderr run\<rparr>
         | Some e \<Rightarrow> if e = SystemExit
                     then Returns \<lparr>stdout = wrote_stdout run, stderr = wrote_stderr run\<rparr>
                     else Raises e)"
  by (simp add: private_run_module_def substitute_attr_def redirect_io_def CustomIO_def YapfIO_def
      runpy_run_module_def stream_write_def get_value_def Let_def split: option.splits prod.splits)

lemma private_run_module_stdin_trace:
  "trace (snd (private_run_module env module argv True (Some src) p)) =
     trace p @ [RunpyRunModule module argv (os_cwd p) src]"
  by (simp add: private_run_module_def substitute_attr_def redirect_io_def CustomIO_def YapfIO_def
      runpy_run_module_def stream_write_def get_value_def Let_def split: option.splits prod.splits)


lemma run_module_stdin_fst:
  "fst (run_module env module argv True cwd (Some src) p) =
     (let run = module_main env module argv
                  (run_cwd env p cwd) src
      in case ended run of
           None \<Rightarrow> Returns \<lparr>stdout = wrote_stdout run, stderr = wrote_stderr run\<rparr>
         | Some e \<Rightarrow> if e = SystemExit
                     then Returns \<lparr>stdout = wrote_stdout run, stderr = wrote_stderr run\<rparr>
                     else Raises e)"
proof (cases "is_same_path env (os_cwd p) cwd")
  case True
  then show ?thesis by (simp add: run_module_def private_run_module_stdin_fst run_cwd_def)
next
  case False
  obtain r q where rq: "private_run_module env module argv True (Some src) (p\<lparr>os_cwd := cwd\<rparr>) = (r, q)"
    by (cases "private_run_module env module argv True (Some src) (p\<lparr>os_cwd := cwd\<rparr>)")
  have "r = fst (private_run_module env module argv True (Some src) (p\<lparr>os_cwd := cwd\<rparr>))"
    using rq by simp
  then have r: "r = (let run = module_main env module argv cwd src
      in case ended run of
           None \<Rightarrow> Returns \<lparr>stdout = wrote_stdout run, stderr = wrote_stderr run\<rparr>
         | Some e \<Rightarrow> if e = SystemExit
                     then Returns \<lparr>stdout = wrote_stdout run, stderr = wrote_stderr run\<rparr>
                     else Raises e)"
    by (simp add: private_run_module_stdin_fst)
  have "fst (run_module env module argv True cwd (Some src) p) = r"
    using False rq by (cases r) (simp_all add: run_module_def change_cwd_def)
  then show ?thesis using r False by (simp add: run_cwd_def)
qed

lemma run_module_stdin_trace:
  "trace (snd (run_module env module argv True cwd (Some src) p)) =
     trace p @ [RunpyRunModule module argv
                  (run_cwd env p cwd) src]"
proof (cases "is_same_path env (os_cwd p) cwd")
  case True
  then show ?thesis by (simp add: run_module_def private_run_module_stdin_trace run_cwd_def)
next
  case False
  obtain r q where rq: "private_run_module env module argv True (Some src) (p\<lparr>os_cwd := cwd\<rparr>) = (r, q)"
    by (cases "private_run_module env module argv True (Some src) (p\<lparr>os_cwd := cwd\<rparr>)")
  have "trace q = trace (snd (private_run_module env module argv True (Some src) (p\<lparr>os_cwd := cwd\<rparr>)))"
    using rq by simp
  then have q: "trace q = trace p @ [RunpyRunModule module argv cwd src]"
    by (simp add: private_run_module_stdin_trace)
  have "trace (snd (run_module env module argv True cwd (Some src) p)) = trace q"
    using False rq by (cases r) (simp_all add: run_module_def change_cwd_def)
  then show ?thesis using q False by (simp add: run_cwd_def)
qed


lemma substitute_attr_fst:
  "fst (substitute_attr a v body p) = fst (body (setattr a v p))"
  by (simp add: substitute_attr_def Let_def split: prod.splits outcome.splits)

lemma setattr_trace [simp]: "trace (setattr a v p) = trace p"
  by (cases a) simp_all

lemma setattr_os_cwd [simp]: "os_cwd (setattr a v p) = os_cwd p"
  by (cases a) simp_all

lemma substitute_attr_trace:
  "trace (snd (substitute_attr a v body p)) = trace (snd (body (setattr a v p)))"
  by (simp add: substitute_attr_def Let_def split: prod.splits outcome.splits)

lemma run_cwd_log [simp]:
  "run_cwd env (log_to_output m p) cwd = run_cwd env p cwd"
  "run_cwd env (setattr a v p) cwd = run_cwd env p cwd"
  by (simp_all add: run_cwd_def)

lemma run_path_fst:
  "fst (run_path env argv use_stdin cwd source_text p) =
     (case communicate env argv cwd use_stdin (if use_stdin then source_text else None) of
        Raises e \<Rightarrow> Raises e
      | Returns (out, err, returncode) \<Rightarrow> Returns \<lparr>stdout = out, stderr = err\<rparr>)"
  by (simp add: run_path_def Let_def split: outcome.splits prod.splits)

lemma run_path_trace:
  "trace (snd (run_path env argv use_stdin cwd source_text p)) =
     trace p @ [Popen argv cwd use_stdin (if use_stdin then source_text else None)]"
  by (simp add: run_path_def Let_def split: outcome.splits prod.splits)

lemma run_tool_by_path_fst:
  "fst (run_tool_by_path env argv use_stdin cwd src p) =
     (case communicate env argv cwd use_stdin (if use_stdin then Some src else None) of
        Raises e \<Rightarrow> Raises e
      | Returns (out, err, returncode) \<Rightarrow> Returns \<lparr>stdout = out, stderr = err\<rparr>)"
proof -
  let ?q = "log_to_output (''CWD Server: '' @ cwd) (log_to_output (str_join '' '' argv) p)"
  obtain r q' where rq: "run_path env argv use_stdin cwd (Some src) ?q = (r, q')"
    by (cases "run_path env argv use_stdin cwd (Some src) ?q")
  then have "r = fst (run_path env argv use_stdin cwd (Some src) ?q)" by simp
  then have r: "r = (case communicate env argv cwd use_stdin (if use_stdin then Some src else None) of
        Raises e \<Rightarrow> Raises e
      | Returns (out, err, returncode) \<Rightarrow> Returns \<lparr>stdout = out, stderr = err\<rparr>)"
    by (simp only: run_path_fst)
  have "fst (run_tool_by_path env argv use_stdin cwd src p) = r"
    using rq by (cases r) (simp_all add: run_tool_by_path_def Let_def)
  then show ?thesis using r by simp
qed

lemma run_tool_by_path_trace:
  "trace (snd (run_tool_by_path env argv use_stdin cwd src p)) =
     trace p @
     [ShowMessageLog (str_join '' '' argv) Log, ShowMessageLog (''CWD Server: '' @ cwd) Log,
      Popen argv cwd use_stdin (if use_stdin then Some src else None)] @
     (case communicate env argv cwd use_stdin (if use_stdin then Some src else None) of
        Raises e \<Rightarrow> []
      | Returns (out, err, returncode) \<Rightarrow> if err \<noteq> [] then [ShowMessageLog err Log] else [])"
proof -
  let ?q = "log_to_output (''CWD Server: '' @ cwd) (log_to_output (str_join '' '' argv) p)"
  obtain r q' where rq: "run_path env argv use_stdin cwd (Some src) ?q = (r, q')"
    by (cases "run_path env argv use_stdin cwd (Some src) ?q")
  then have "r = fst (run_path env argv use_stdin cwd (Some src) ?q)"
    and "trace q' = trace (snd (run_path env argv use_stdin cwd (Some src) ?q))" by simp_all
  then have r: "r = (case communicate env argv cwd use_stdin (if use_stdin then Some src else None) of
        Raises e \<Rightarrow> Raises e
      | Returns (out, err, returncode) \<Rightarrow> Returns \<lparr>stdout = out, stderr = err\<rparr>)"
    and q': "trace q' = trace ?q @ [Popen argv cwd use_stdin (if use_stdin then Some src else None)]"
    by (simp_all only: run_path_fst run_path_trace)
  show ?thesis
    using rq r q'
    by (cases "communicate env argv cwd use_stdin (if use_stdin then Some src else None)")
       (auto simp: run_tool_by_path_def Let_def split: prod.splits)
qed

lemma run_tool_by_rpc_fst:
  "fst (run_tool_by_rpc env settings argv use_stdin cwd src p) =
     Returns
       \<lparr>stdout = rpc_stdout (run_over_json_rpc env (s_workspaceFS settings)
                    (s_interpreter settings) TOOL_MODULE argv use_stdin cwd src),
        stderr = rpc_stderr (run_over_json_rpc env (s_workspaceFS settings)
                    (s_interpreter settings) TOOL_MODULE argv use_stdin cwd src)\<rparr>"
  by (simp add: run_tool_by_rpc_def Let_def)

lemma run_tool_by_rpc_trace:
  "trace (snd (run_tool_by_rpc env settings argv use_stdin cwd src p)) =
     trace p @
     [ShowMessageLog (str_join '' '' (s_interpreter settings @ [''-m''] @ argv)) Log,
      ShowMessageLog (''CWD Linter: '' @ cwd) Log,
      JsonRpcRequest (s_workspaceFS settings) (s_interpreter settings) TOOL_MODULE argv
        use_stdin cwd src] @
     (let result = run_over_json_rpc env (s_workspaceFS settings) (s_interpreter settings)
                     TOOL_MODULE argv use_stdin cwd src
      in case rpc_exception result of
           None \<Rightarrow> if rpc_stderr result \<noteq> [] then [ShowMessageLog (rpc_stderr result) Log] else []
         | Some e \<Rightarrow>
             if e \<noteq> [] then log_error_events env e
             else if rpc_stderr result \<noteq> [] then [ShowMessageLog (rpc_stderr result) Log]
             else [])"
  by (simp add: run_tool_by_rpc_def Let_def log_error_trace split: option.splits)

lemma run_cwd_updates [simp]:
  "run_cwd env (p\<lparr>sys_path := v\<rparr>) cwd = run_cwd env p cwd"
  "run_cwd env (p\<lparr>sys_argv := a\<rparr>) cwd = run_cwd env p cwd"
  "run_cwd env (p\<lparr>trace := t\<rparr>) cwd = run_cwd env p cwd"
  by (simp_all add: run_cwd_def)

lemma setattr_same [simp]: "setattr Attr_path (sys_path p) p = p"
  by simp

lemma run_tool_as_module_fst:
  "fst (run_tool_as_module env argv True cwd src p) =
     (let run = module_main env TOOL_MODULE argv (run_cwd env p cwd) src
      in case ended run of
           None \<Rightarrow> Returns \<lparr>stdout = wrote_stdout run, stderr = wrote_stderr run\<rparr>
         | Some e \<Rightarrow> if e = SystemExit
                     then Returns \<lparr>stdout = wrote_stdout run, stderr = wrote_stderr run\<rparr>
                     else Raises e)"
proof -
  let ?p2 = "log_to_output (''CWD Linter: '' @ cwd)
               (log_to_output (str_join '' '' ([sys_executable env, ''-m''] @ argv)) p)"
  let ?q = "?p2"
  obtain r q1 where rq: "run_module env TOOL_MODULE argv True cwd (Some src) ?q = (r, q1)"
    by (cases "run_module env TOOL_MODULE argv True cwd (Some src) ?q")
  then have "r = fst (run_module env TOOL_MODULE argv True cwd (Some src) ?q)" by simp
  then have r: "r = (let run = module_main env TOOL_MODULE argv (run_cwd env p cwd) src
      in case ended run of
           None \<Rightarrow> Returns \<lparr>stdout = wrote_stdout run, stderr = wrote_stderr run\<rparr>
         | Some e \<Rightarrow> if e = SystemExit
                     then Returns \<lparr>stdout = wrote_stdout run, stderr = wrote_stderr run\<rparr>
                     else Raises e)"
    by (simp add: run_module_stdin_fst)
  have "fst (run_tool_as_module env argv True cwd src p) = r"
    using rq
    by (cases r) (simp_all add: run_tool_as_module_def substitute_attr_def Let_def)
  then show ?thesis using r by simp
qed

lemma run_tool_as_module_trace:
  "trace (snd (run_tool_as_module env argv True cwd src p)) =
     trace p @
     [ShowMessageLog (str_join '' '' ([sys_executable env, ''-m''] @ argv)) Log,
      ShowMessageLog (''CWD Linter: '' @ cwd) Log,
      RunpyRunModule TOOL_MODULE argv (run_cwd env p cwd) src] @
     (let run = module_main env TOOL_MODULE argv (run_cwd env p cwd) src
      in if ended run = None \<or> ended run = Some SystemExit
         then (if wrote_stderr run \<noteq> [] then [ShowMessageLog (wrote_stderr run) Log] else [])
         else log_error_events env (format_exc env (the (ended run))))"
proof -
  let ?p2 = "log_to_output (''CWD Linter: '' @ cwd)
               (log_to_output (str_join '' '' ([sys_executable env, ''-m''] @ argv)) p)"
  let ?q = "?p2"
  let ?run = "module_main env TOOL_MODULE argv (run_cwd env p cwd) src"
  obtain r q1 where rq: "run_module env TOOL_MODULE argv True cwd (Some src) ?q = (r, q1)"
    by (cases "run_module env TOOL_MODULE argv True cwd (Some src) ?q")
  then have "r = fst (run_module env TOOL_MODULE argv True cwd (Some src) ?q)"
    and "trace q1 = trace (snd (run_module env TOOL_MODULE argv True cwd (Some src) ?q))"
    by simp_all
  then have r: "r = (case ended ?run of
           None \<Rightarrow> Returns \<lparr>stdout = wrote_stdout ?run, stderr = wrote_stderr ?run\<rparr>
         | Some e \<Rightarrow> if e = SystemExit
                     then Returns \<lparr>stdout = wrote_stdout ?run, stderr = wrote_stderr ?run\<rparr>
                     else Raises e)"
    and q1: "trace q1 = trace p @
     [ShowMessageLog (str_join '' '' ([sys_executable env, ''-m''] @ argv)) Log,
      ShowMessageLog (''CWD Linter: '' @ cwd) Log,
      RunpyRunModule TOOL_MODULE argv (run_cwd env p cwd) src]"
    by (simp_all add: run_module_stdin_fst run_module_stdin_trace Let_def)
  show ?thesis
  proof (cases "ended ?run = None \<or> ended ?run = Some SystemExit")
    case True
    then have "r = Returns \<lparr>stdout = wrote_stdout ?run, stderr = wrote_stderr ?run\<rparr>"
      using r by auto
    then show ?thesis
      using rq q1 True
      by (simp add: run_tool_as_module_def substitute_attr_def Let_def)
  next
    case False
    then obtain e where e: "ended ?run = Some e" "e \<noteq> SystemExit" by (cases "ended ?run") auto
    then have "r = Raises e" using r by simp
    then show ?thesis
      using rq q1 False e
      by (simp add: run_tool_as_module_def substitute_attr_def Let_def log_error_trace)
  qed
qed

subsection \<open>Running the tool on a document\<close>

lemma case_outcome_pair:
  "(case b of (Raises e, q) \<Rightarrow> f e q | (Returns r, q) \<Rightarrow> g r q) =
   (case fst b of Raises e \<Rightarrow> f e (snd b) | Returns r \<Rightarrow> g r (snd b))"
  by (cases b; cases "fst b") auto

lemma run_tool_on_document_unfold:
  assumes "\<not> is_stdlib_file env (path document)"
    and "settings = get_settings_by_document env document"
    and "argv = tool_argv settings document use_stdin (case extra of None \<Rightarrow> [] | Some a \<Rightarrow> a)"
    and "p1 = (if has_magics env document
               then log_debug (''cellMagics: '' @ repr_list env (configured_magics settings)) settings p
               else p)"
    and "branch =
           (if use_path settings
            then run_tool_by_path env argv use_stdin (s_cwd settings) (tool_input env settings document) p1
            else if use_rpc env settings
            then run_tool_by_rpc env settings argv use_stdin (s_cwd settings)
                   (tool_input env settings document) p1
            else run_tool_as_module env argv use_stdin (s_cwd settings)
                   (tool_input env settings document) p1)"
  shows "run_tool_on_document env document use_stdin extra p =
     (case fst branch of
        Raises e \<Rightarrow> (Raises e, snd branch)
      | Returns result \<Rightarrow>
          (Returns (Some (result\<lparr>stdout := tool_output env document (stdout result)\<rparr>)),
           log_debug (uri document @ '' :'' @ CRLF @ tool_output env document (stdout result))
             settings (snd branch)))"
  unfolding assms(5) assms(4) assms(3) assms(2) run_tool_on_document_def case_outcome_pair Let_def
  using assms(1) by (simp only: if_False)

lemma p1_fields [simp]:
  "invocations (trace (if c then log_debug m s p else p)) = invocations (trace p)"
  "run_cwd env (if c then log_debug m s p else p) cwd = run_cwd env p cwd"
  by (simp_all add: run_cwd_def)

lemma run_tool_on_document_path:
  assumes "\<not> is_stdlib_file env (path document)"
    and "settings = get_settings_by_document env document"
    and "use_path settings"
    and "argv = tool_argv settings document True (case extra of None \<Rightarrow> [] | Some a \<Rightarrow> a)"
  shows "fst (run_tool_on_document env document True extra p) =
           (case communicate env argv (s_cwd settings) True (Some (tool_input env settings document)) of
              Raises e \<Rightarrow> Raises e
            | Returns (out, err, returncode) \<Rightarrow>
                Returns (Some \<lparr>stdout = tool_output env document out, stderr = err\<rparr>))"
    and "invocations (trace (snd (run_tool_on_document env document True extra p))) =
           invocations (trace p) @
           [Popen argv (s_cwd settings) True (Some (tool_input env settings document))]"
proof -
  let ?p1 = "if has_magics env document
               then log_debug (''cellMagics: '' @ repr_list env (configured_magics settings)) settings p
               else p"
  let ?b = "run_tool_by_path env argv True (s_cwd settings) (tool_input env settings document) ?p1"
  let ?c = "communicate env argv (s_cwd settings) True (Some (tool_input env settings document))"
  have u: "run_tool_on_document env document True extra p =
     (case fst ?b of
        Raises e \<Rightarrow> (Raises e, snd ?b)
      | Returns result \<Rightarrow>
          (Returns (Some (result\<lparr>stdout := tool_output env document (stdout result)\<rparr>)),
           log_debug (uri document @ '' :'' @ CRLF @ tool_output env document (stdout result))
             settings (snd ?b)))"
    using run_tool_on_document_unfold[OF assms(1,2,4) refl refl, of p] assms(3) by simp
  have f: "fst ?b = (case ?c of Raises e \<Rightarrow> Raises e
      | Returns (out, err, returncode) \<Rightarrow> Returns \<lparr>stdout = out, stderr = err\<rparr>)"
    by (simp add: run_tool_by_path_fst)
  have t: "invocations (trace (snd ?b)) = invocations (trace p) @
           [Popen argv (s_cwd settings) True (Some (tool_input env settings document))]"
    by (simp add: run_tool_by_path_trace split: outcome.splits)
  show "fst (run_tool_on_document env document True extra p) =
           (case ?c of
              Raises e \<Rightarrow> Raises e
            | Returns (out, err, returncode) \<Rightarrow>
                Returns (Some \<lparr>stdout = tool_output env document out, stderr = err\<rparr>))"
    unfolding u f by (cases ?c) auto
  show "invocations (trace (snd (run_tool_on_document env document True extra p))) =
           invocations (trace p) @
           [Popen argv (s_cwd settings) True (Some (tool_input env settings document))]"
    unfolding u using t by (cases "fst ?b") simp_all
qed


lemma run_tool_on_document_rpc:
  assumes "\<not> is_stdlib_file env (path document)"
    and "settings = get_settings_by_document env document"
    and "\<not> use_path settings" and "use_rpc env settings"
    and "argv = tool_argv settings document True (case extra of None \<Rightarrow> [] | Some a \<Rightarrow> a)"
    and "result = run_over_json_rpc env (s_workspaceFS settings) (s_interpreter settings)
                    TOOL_MODULE argv True (s_cwd settings) (tool_input env settings document)"
  shows "fst (run_tool_on_document env document True extra p) =
           Returns (Some \<lparr>stdout = tool_output env document (rpc_stdout result),
                          stderr = rpc_stderr result\<rparr>)"
    and "invocations (trace (snd (run_tool_on_document env document True extra p))) =
           invocations (trace p) @
           [JsonRpcRequest (s_workspaceFS settings) (s_interpreter settings) TOOL_MODULE argv True
              (s_cwd settings) (tool_input env settings document)]"
proof -
  let ?p1 = "if has_magics env document
               then log_debug (''cellMagics: '' @ repr_list env (configured_magics settings)) settings p
               else p"
  let ?b = "run_tool_by_rpc env settings argv True (s_cwd settings)
              (tool_input env settings document) ?p1"
  have u: "run_tool_on_document env document True extra p =
     (case fst ?b of
        Raises e \<Rightarrow> (Raises e, snd ?b)
      | Returns result \<Rightarrow>
          (Returns (Some (result\<lparr>stdout := tool_output env document (stdout result)\<rparr>)),
           log_debug (uri document @ '' :'' @ CRLF @ tool_output env document (stdout result))
             settings (snd ?b)))"
    using run_tool_on_document_unfold[OF assms(1,2,5) refl refl, of p] assms(3,4) by simp
  have f: "fst ?b = Returns \<lparr>stdout = rpc_stdout result, stderr = rpc_stderr result\<rparr>"
    using assms(6) by (simp add: run_tool_by_rpc_fst)
  have t: "invocations (trace (snd ?b)) = invocations (trace p) @
           [JsonRpcRequest (s_workspaceFS settings) (s_interpreter settings) TOOL_MODULE argv True
              (s_cwd settings) (tool_input env settings document)]"
    by (simp add: run_tool_by_rpc_trace Let_def split: option.splits)
  show "fst (run_tool_on_document env document True extra p) =
           Returns (Some \<lparr>stdout = tool_output env document (rpc_stdout result),
                          stderr = rpc_stderr result\<rparr>)"
    unfolding u f by simp
  show "invocations (trace (snd (run_tool_on_document env document True extra p))) =
           invocations (trace p) @
           [JsonRpcRequest (s_workspaceFS settings) (s_interpreter settings) TOOL_MODULE argv True
              (s_cwd settings) (tool_input env settings document)]"
    unfolding u using t by (cases "fst ?b") simp_all
qed

lemma run_tool_on_document_module:
  assumes "\<not> is_stdlib_file env (path document)"
    and "settings = get_settings_by_document env document"
    and "\<not> use_path settings" and "\<not> use_rpc env settings"
    and "argv = tool_argv settings document True (case extra of None \<Rightarrow> [] | Some a \<Rightarrow> a)"
    and "run = module_main env TOOL_MODULE argv (run_cwd env p (s_cwd settings))
                 (tool_input env settings document)"
  shows "fst (run_tool_on_document env document True extra p) =
           (if ended run = None \<or> ended run = Some SystemExit
            then Returns (Some \<lparr>stdout = tool_output env document (wrote_stdout run),
                                stderr = wrote_stderr run\<rparr>)
            else Raises (the (ended run)))"
    and "invocations (trace (snd (run_tool_on_document env document True extra p))) =
           invocations (trace p) @
           [RunpyRunModule TOOL_MODULE argv (run_cwd env p (s_cwd settings))
              (tool_input env settings document)]"
proof -
  let ?p1 = "if has_magics env document
               then log_debug (''cellMagics: '' @ repr_list env (configured_magics settings)) settings p
               else p"
  let ?b = "run_tool_as_module env argv True (s_cwd settings)
              (tool_input env settings document) ?p1"
  have u: "run_tool_on_document env document True extra p =
     (case fst ?b of
        Raises e \<Rightarrow> (Raises e, snd ?b)
      | Returns result \<Rightarrow>
          (Returns (Some (result\<lparr>stdout := tool_output env document (stdout result)\<rparr>)),
           log_debug (uri document @ '' :'' @ CRLF @ tool_output env document (stdout result))
             settings (snd ?b)))"
    using run_tool_on_document_unfold[OF assms(1,2,5) refl refl, of p] assms(3,4) by simp
  have f: "fst ?b = (if ended run = None \<or> ended run = Some SystemExit
            then Returns \<lparr>stdout = wrote_stdout run, stderr = wrote_stderr run\<rparr>
            else Raises (the (ended run)))"
    using assms(6) by (auto simp: run_tool_as_module_fst Let_def split: option.splits)
  have t: "invocations (trace (snd ?b)) = invocations (trace p) @
           [RunpyRunModule TOOL_MODULE argv (run_cwd env p (s_cwd settings))
              (tool_input env settings document)]"
    by (simp add: run_tool_as_module_trace Let_def)
  show "fst (run_tool_on_document env document True extra p) =
           (if ended run = None \<or> ended run = Some SystemExit
            then Returns (Some \<lparr>stdout = tool_output env document (wrote_stdout run),
                                stderr = wrote_stderr run\<rparr>)
            else Raises (the (ended run)))"
    unfolding u f by simp
  show "invocations (trace (snd (run_tool_on_document env document True extra p))) =
           invocations (trace p) @
           [RunpyRunModule TOOL_MODULE argv (run_cwd env p (s_cwd settings))
              (tool_input env settings document)]"
    unfolding u using t by (cases "fst ?b") simp_all
qed

lemma run_tool_on_document_stdlib:
  "is_stdlib_file env (path document) \<Longrightarrow>
   run_tool_on_document env document use_stdin extra p = (Returns None, p)"
  by (simp add: run_tool_on_document_def)


subsection \<open>The handlers\<close>

lemma is_ignored_fields:
  "invocations (trace (snd (is_ignored env document p))) = invocations (trace p)"
  "os_cwd (snd (is_ignored env document p)) = os_cwd p"
  by (auto simp: is_ignored_def Let_def log_error_trace log_error_def show_message_log_def
        show_message_def split: option.splits sum.splits)

lemma formatting_helper_ignored:
  assumes "fst (is_ignored env document p)"
  shows "formatting_helper env document extra p = (Returns None, snd (is_ignored env document p))"
proof -
  obtain b p1 where i: "is_ignored env document p = (b, p1)" by (cases "is_ignored env document p")
  then have "b" using assms by simp
  then show ?thesis using i by (simp add: formatting_helper_def)
qed

lemma formatting_helper_not_ignored:
  assumes "\<not> fst (is_ignored env document p)"
  shows "formatting_helper env document extra p =
     (case fst (run_tool_on_document env document True extra (snd (is_ignored env document p))) of
        Raises e \<Rightarrow>
          (Raises e, snd (run_tool_on_document env document True extra (snd (is_ignored env document p))))
      | Returns None \<Rightarrow>
          (Raises AttributeError,
           snd (run_tool_on_document env document True extra (snd (is_ignored env document p))))
      | Returns (Some result) \<Rightarrow>
          (if stdout result \<noteq> []
           then Returns (Some
                  [\<lparr>edit_range =
                      \<lparr>range_start = \<lparr>line = 0, character = 0\<rparr>,
                       range_end = \<lparr>line = int (length (lines document)), character = 0\<rparr>\<rparr>,
                    new_text = match_line_endings document (stdout result)\<rparr>])
           else Returns None,
           snd (run_tool_on_document env document True extra (snd (is_ignored env document p)))))"
proof -
  obtain b p1 where i: "is_ignored env document p = (b, p1)" by (cases "is_ignored env document p")
  then have b: "\<not> b" using assms by simp
  obtain r p2 where t: "run_tool_on_document env document True extra p1 = (r, p2)"
    by (cases "run_tool_on_document env document True extra p1")
  show ?thesis
  proof (cases r)
    case (Raises e)
    then show ?thesis using i b t by (simp add: formatting_helper_def)
  next
    case (Returns res)
    then show ?thesis using i b t by (cases res) (simp_all add: formatting_helper_def Let_def)
  qed
qed

lemma formatting_is_helper:
  "formatting env document p = formatting_helper env document None p"
proof (cases "fst (is_ignored env document p)")
  case True
  then show ?thesis by (simp add: formatting_def formatting_helper_ignored)
next
  case False
  show ?thesis
    unfolding formatting_def formatting_helper_not_ignored[OF False]
    by (simp split: outcome.splits option.splits)
qed

lemma range_formatting_is_helper:
  "range_formatting env document rng p =
     formatting_helper env document
       (Some [''-l'', str_int (line (range_start rng) + 1) @ ''-'' @ str_int (line (range_end rng) + 1)]) p"
proof (cases "fst (is_ignored env document p)")
  case True
  then show ?thesis by (simp add: range_formatting_def formatting_helper_ignored)
next
  case False
  show ?thesis
    unfolding range_formatting_def Let_def formatting_helper_not_ignored[OF False]
    by (simp split: outcome.splits option.splits)
qed

subsection \<open>Cell magics are restored\<close>

text \<open>
  C9.  When no line of the source contains the mask sequence \<open>#\x00%\x00#\<close>, decoding the
  encoded source gives the source back, for every list of configured magics and whatever
  lines the pattern recognises as magic.
\<close>

theorem decode_encode_cell_magic:
  assumes "\<forall>code_line \<in> set (str_split LF code). \<not> contains mask code_line"
  shows "decode_cell_magic (encode_cell_magic env code python_cell_magics) = code"
proof -
  let ?enc = "\<lambda>code_line. if is_cell_magic env code_line python_cell_magics
                then encode_line_magic code_line else code_line"
  have line: "replace_occurrences mask ''%'' (?enc l) = l" if "l \<in> set (str_split LF code)" for l
    using that assms
    by (simp add: encode_line_magic_def str_replace_def decode_encode_line replace_absent)
  have "decode_cell_magic (encode_cell_magic env code python_cell_magics)
        = replace_occurrences mask ''%'' (str_join [LF] (map ?enc (str_split LF code)))"
    by (simp add: decode_cell_magic_def decode_line_magic_def encode_cell_magic_def
        str_replace_def mask_no_LF)
  also have "\<dots> = str_join [LF] (map (replace_occurrences mask ''%'') (map ?enc (str_split LF code)))"
    by (rule replace_occurrences_join[OF mask_no_LF])
  also have "\<dots> = str_join [LF] (map (\<lambda>l. l) (str_split LF code))"
    unfolding map_map comp_def using line by (metis (no_types, lifting) map_cong)
  also have "\<dots> = code"
    by (simp add: join_split)
  finally show ?thesis .
qed

theorem decode_encode_cell_magic_witness:
  "str_split LF (''%%time'' @ [LF] @ ''x = 1'') = [''%%time'', ''x = 1'']
   \<and> \<not> contains mask ''%%time'' \<and> \<not> contains mask ''x = 1''
   \<and> encode_cell_magic example_env (''%%time'' @ [LF] @ ''x = 1'') []
       = mask @ mask @ ''time'' @ [LF] @ ''x = 1''
   \<and> decode_cell_magic (encode_cell_magic example_env (''%%time'' @ [LF] @ ''x = 1'') [])
       = ''%%time'' @ [LF] @ ''x = 1''"
proof -
  have split: "str_split LF (''%%time'' @ [LF] @ ''x = 1'') = [''%%time'', ''x = 1'']"
    by simp
  have clean: "\<not> contains mask ''%%time''" "\<not> contains mask ''x = 1''"
    by (simp_all add: mask_def)
  have enc: "encode_cell_magic example_env (''%%time'' @ [LF] @ ''x = 1'') []
             = mask @ mask @ ''time'' @ [LF] @ ''x = 1''"
    by (simp add: encode_cell_magic_def is_cell_magic_def example_env_def encode_line_magic_def
        str_replace_def)
  have "\<forall>code_line \<in> set (str_split LF (''%%time'' @ [LF] @ ''x = 1'')). \<not> contains mask code_line"
    using split clean by simp
  from decode_encode_cell_magic[OF this, of example_env "[]"] split clean enc
  show ?thesis by simp
qed

subsection \<open>On-type formatting\<close>

text \<open>
  C7.  When the line before the position, \<open>document.lines[position.line - 1]\<close>, is blank
  after stripping spaces, tabs and line feeds, or ends with a comma after stripping line
  feeds, \<open>on_type_formatting\<close> returns \<open>None\<close>; it runs no tool and sends no message.
\<close>

theorem on_type_blank_or_comma_line:
  assumes "py_index (lines document) (line position - 1) = Returns previous"
    and "rstrip [CHR '' '', TAB, LF] previous = [] \<or> suffix '','' (rstrip [LF] previous)"
  shows "on_type_formatting env document position p = (Returns None, p)"
  using assms by (simp add: on_type_formatting_def)

theorem on_type_blank_or_comma_line_witness:
  "py_index (lines comma_document) (line \<lparr>line = 1, character = 0\<rparr> - 1)
     = Returns (''x = [1,'' @ [LF])
   \<and> suffix '','' (rstrip [LF] (''x = [1,'' @ [LF]))
   \<and> on_type_formatting example_env comma_document \<lparr>line = 1, character = 0\<rparr> example_process
       = (Returns None, example_process)"
proof -
  have i: "py_index (lines comma_document) (line \<lparr>line = 1, character = 0\<rparr> - 1)
             = Returns (''x = [1,'' @ [LF])"
    by (simp add: py_index_def comma_document_def)
  have c: "suffix '','' (rstrip [LF] (''x = [1,'' @ [LF]))"
    by (simp add: rstrip_def suffix_def)
  from on_type_blank_or_comma_line[OF i disjI2[OF c], of example_env example_process] i c
  show ?thesis by simp
qed

text \<open>
  C8.  When the line before the position exists and the source, with \<open>\r\n\<close> replaced by
  \<open>\n\<close> and with the magics masked in a notebook cell, does not parse, \<open>on_type_formatting\<close>
  returns \<open>None\<close> and raises nothing; it runs no tool and sends no message.
\<close>

theorem on_type_syntax_error:
  assumes "py_index (lines document) (line position - 1) = Returns previous"
    and "ast_parse env
           (if notebook_cell document
            then encode_cell_magic env (str_replace CRLF [LF] (source document))
                   (configured_magics (get_settings_by_document env document))
            else str_replace CRLF [LF] (source document)) = None"
  shows "on_type_formatting env document position p = (Returns None, p)"
  using assms by (simp add: on_type_formatting_def Let_def)

theorem on_type_syntax_error_witness:
  "py_index (lines example_document) (line \<lparr>line = 1, character = 0\<rparr> - 1)
     = Returns (''x=1'' @ [LF])
   \<and> rstrip [CHR '' '', TAB, LF] (''x=1'' @ [LF]) \<noteq> []
   \<and> \<not> suffix '','' (rstrip [LF] (''x=1'' @ [LF]))
   \<and> \<not> notebook_cell example_document
   \<and> ast_parse unparsable_env (str_replace CRLF [LF] (source example_document)) = None
   \<and> on_type_formatting unparsable_env example_document \<lparr>line = 1, character = 0\<rparr> example_process
       = (Returns None, example_process)"
proof -
  have i: "py_index (lines example_document) (line \<lparr>line = 1, character = 0\<rparr> - 1)
             = Returns (''x=1'' @ [LF])"
    by (simp add: py_index_def example_document_def)
  have n: "\<not> notebook_cell example_document"
    by (simp add: notebook_cell_def example_document_def)
  have a: "ast_parse unparsable_env s = None" for s
    by (simp add: unparsable_env_def)
  have b: "rstrip [CHR '' '', TAB, LF] (''x=1'' @ [LF]) \<noteq> []"
     "\<not> suffix '','' (rstrip [LF] (''x=1'' @ [LF]))"
    by (simp_all add: rstrip_def suffix_def)
  have "ast_parse unparsable_env
           (if notebook_cell example_document
            then encode_cell_magic unparsable_env (str_replace CRLF [LF] (source example_document))
                   (configured_magics (get_settings_by_document unparsable_env example_document))
            else str_replace CRLF [LF] (source example_document)) = None"
    by (rule a)
  from on_type_syntax_error[OF i this, of example_process] i n a b
  show ?thesis by simp
qed

subsection \<open>What the handlers run\<close>

lemma formatting_helper_snd:
  assumes "\<not> fst (is_ignored env document p)"
  shows "snd (formatting_helper env document extra p) =
         snd (run_tool_on_document env document True extra (snd (is_ignored env document p)))"
  unfolding formatting_helper_not_ignored[OF assms]
  by (simp split: outcome.splits option.splits)

lemma run_cwd_is_ignored [simp]:
  "run_cwd env (snd (is_ignored env document p)) cwd = run_cwd env p cwd"
  by (simp add: run_cwd_def is_ignored_fields)

lemma formatting_helper_no_invocation:
  assumes "fst (is_ignored env document p) \<or> is_stdlib_file env (path document)"
  shows "invocations (trace (snd (formatting_helper env document extra p))) = invocations (trace p)"
proof (cases "fst (is_ignored env document p)")
  case True
  then show ?thesis by (simp add: formatting_helper_ignored is_ignored_fields)
next
  case False
  then have "is_stdlib_file env (path document)" using assms by simp
  then show ?thesis
    by (simp add: formatting_helper_snd[OF False] run_tool_on_document_stdlib is_ignored_fields)
qed

lemma formatting_helper_invocation:
  assumes "\<not> fst (is_ignored env document p)" and "\<not> is_stdlib_file env (path document)"
    and "settings = get_settings_by_document env document"
    and "argv = tool_argv settings document True (case extra of None \<Rightarrow> [] | Some a \<Rightarrow> a)"
  shows "invocations (trace (snd (formatting_helper env document extra p))) =
     invocations (trace p) @
     [if use_path settings
      then Popen argv (s_cwd settings) True (Some (tool_input env settings document))
      else if use_rpc env settings
      then JsonRpcRequest (s_workspaceFS settings) (s_interpreter settings) TOOL_MODULE argv True
             (s_cwd settings) (tool_input env settings document)
      else RunpyRunModule TOOL_MODULE argv (run_cwd env p (s_cwd settings))
             (tool_input env settings document)]"
proof -
  let ?q = "snd (is_ignored env document p)"
  have s: "snd (formatting_helper env document extra p) =
           snd (run_tool_on_document env document True extra ?q)"
    by (rule formatting_helper_snd[OF assms(1)])
  show ?thesis
  proof (cases "use_path settings")
    case True
    then show ?thesis
      using run_tool_on_document_path(2)[OF assms(2,3) True assms(4), of ?q]
      by (simp add: s is_ignored_fields)
  next
    case np: False
    show ?thesis
    proof (cases "use_rpc env settings")
      case True
      then show ?thesis
        using run_tool_on_document_rpc(2)[OF assms(2,3) np True assms(4) refl, of ?q] np
        by (simp add: s is_ignored_fields)
    next
      case False
      then show ?thesis
        using run_tool_on_document_module(2)[OF assms(2,3) np False assms(4) refl, of ?q] np
        by (simp add: s is_ignored_fields)
    qed
  qed
qed

subsection \<open>The backend\<close>

text \<open>
  C4.  A formatting request for a document that is neither ignored nor under a
  site-packages path runs the formatter once, and the backend follows a fixed priority:
  with a non-empty \<open>path\<close> setting it is a child process started with that argument vector
  (followed by the arguments) and fed the source on its stdin; otherwise, with an
  interpreter set whose first entry is not the current interpreter, it is a JSON-RPC
  request; otherwise it is the module run in this process, which sees the argument vector
  as \<open>sys.argv\<close> and the source on \<open>sys.stdin\<close>.
\<close>

theorem backend_priority:
  assumes "\<not> fst (is_ignored env document p)" and "\<not> is_stdlib_file env (path document)"
  shows
    "let settings = get_settings_by_document env document;
         arguments = TOOL_ARGS @ s_args settings @ (case extra of None \<Rightarrow> [] | Some a \<Rightarrow> a);
         source_text = tool_input env settings document
     in invocations (trace (snd (formatting_helper env document extra p))) =
        invocations (trace p) @
        [if s_path settings \<noteq> []
         then Popen (s_path settings @ arguments) (s_cwd settings) True (Some source_text)
         else if s_interpreter settings \<noteq> [] \<and>
                 \<not> is_current_interpreter env (hd (s_interpreter settings))
         then JsonRpcRequest (s_workspaceFS settings) (s_interpreter settings) TOOL_MODULE
                ([TOOL_MODULE] @ arguments) True (s_cwd settings) source_text
         else RunpyRunModule TOOL_MODULE ([TOOL_MODULE] @ arguments)
                (run_cwd env p (s_cwd settings)) source_text]"
  using formatting_helper_invocation[OF assms refl refl, of extra]
  by (simp add: Let_def use_path_def use_rpc_def tool_argv_def)

subsection \<open>The example inputs evaluated\<close>

lemma example_settings:
  "get_settings_by_document example_env d =
     \<lparr>s_cwd = ''/ws'', s_workspaceFS = ''/ws'', s_workspace = ''file:///ws'', s_path = [],
      s_interpreter = [''/usr/bin/python3''], s_args = [], s_showDebugLog = False,
      s_cellMagics = Some []\<rparr>"
  by (simp add: get_settings_by_document_def get_document_key_def get_global_defaults_def
      example_env_def Let_def)

lemma executable_settings:
  "get_settings_by_document failing_executable_env d =
     \<lparr>s_cwd = ''/ws'', s_workspaceFS = ''/ws'', s_workspace = ''file:///ws'',
      s_path = [''/opt/yapf''],
      s_interpreter = [''/usr/bin/python3''], s_args = [], s_showDebugLog = False,
      s_cellMagics = Some []\<rparr>"
  "get_settings_by_document missing_executable_env d =
     \<lparr>s_cwd = ''/ws'', s_workspaceFS = ''/ws'', s_workspace = ''file:///ws'',
      s_path = [''/opt/yapf''],
      s_interpreter = [''/usr/bin/python3''], s_args = [], s_showDebugLog = False,
      s_cellMagics = Some []\<rparr>"
  by (simp_all add: get_settings_by_document_def get_document_key_def get_global_defaults_def
      failing_executable_env_def missing_executable_env_def example_env_def Let_def)

lemma rpc_settings:
  "get_settings_by_document rpc_exception_env d =
     \<lparr>s_cwd = ''/ws'', s_workspaceFS = ''/ws'', s_workspace = ''file:///ws'', s_path = [],
      s_interpreter = [''/venv/bin/python''], s_args = [], s_showDebugLog = False,
      s_cellMagics = Some []\<rparr>"
  by (simp add: get_settings_by_document_def get_document_key_def get_global_defaults_def
      rpc_exception_env_def example_env_def Let_def)

lemma crashing_settings:
  "get_settings_by_document crashing_tool_env d =
     \<lparr>s_cwd = ''/ws'', s_workspaceFS = ''/ws'', s_workspace = ''file:///ws'', s_path = [],
      s_interpreter = [''/usr/bin/python3''], s_args = [], s_showDebugLog = False,
      s_cellMagics = Some []\<rparr>"
  by (simp add: get_settings_by_document_def get_document_key_def get_global_defaults_def
      crashing_tool_env_def example_env_def Let_def)

lemma examples_not_ignored:
  "is_ignored example_env d p = (False, p)"
  "is_ignored failing_executable_env d p = (False, p)"
  "is_ignored missing_executable_env d p = (False, p)"
  "is_ignored rpc_exception_env d p = (False, p)"
  "is_ignored crashing_tool_env d p = (False, p)"
  by (simp_all add: is_ignored_def example_env_def failing_executable_env_def
      missing_executable_env_def rpc_exception_env_def crashing_tool_env_def Let_def)

lemma examples_not_stdlib:
  "\<not> is_stdlib_file example_env (path example_document)"
  "\<not> is_stdlib_file failing_executable_env (path example_document)"
  "\<not> is_stdlib_file missing_executable_env (path example_document)"
  "\<not> is_stdlib_file rpc_exception_env (path example_document)"
  "\<not> is_stdlib_file crashing_tool_env (path example_document)"
  by (simp_all add: is_stdlib_file_def example_env_def failing_executable_env_def
      missing_executable_env_def rpc_exception_env_def crashing_tool_env_def example_document_def)

lemma example_plain_document:
  "\<not> notebook_cell example_document" "\<not> has_magics env example_document"
  "tool_output env example_document out = out"
  by (simp_all add: notebook_cell_def has_magics_def tool_output_def example_document_def)

lemma example_source: "source example_document = ''x=1'' @ [LF]"
  by (simp add: example_document_def)

lemma example_tool_input:
  "tool_input env settings example_document = ''x=1'' @ [LF]"
  by (simp add: tool_input_def example_plain_document str_replace_def example_source Let_def)

lemma example_interpreters:
  "is_current_interpreter example_env ''/usr/bin/python3''"
  "\<not> is_current_interpreter rpc_exception_env ''/venv/bin/python''"
  by (simp_all add: is_current_interpreter_def is_same_path_def example_env_def
      rpc_exception_env_def)

lemma example_run_cwd:
  "run_cwd example_env example_process ''/ws'' = ''/ws''"
  "run_cwd crashing_tool_env example_process ''/ws'' = ''/ws''"
  by (simp_all add: run_cwd_def is_same_path_def example_env_def crashing_tool_env_def
      example_process_def)

theorem backend_priority_witness:
  "\<not> fst (is_ignored failing_executable_env example_document example_process)
   \<and> \<not> is_stdlib_file failing_executable_env (path example_document)
   \<and> invocations (trace (snd (formatting_helper failing_executable_env example_document None
                                 example_process)))
       = [Popen [''/opt/yapf''] ''/ws'' True (Some (''x=1'' @ [LF]))]
   \<and> \<not> fst (is_ignored rpc_exception_env example_document example_process)
   \<and> \<not> is_stdlib_file rpc_exception_env (path example_document)
   \<and> invocations (trace (snd (formatting_helper rpc_exception_env example_document None
                                 example_process)))
       = [JsonRpcRequest ''/ws'' [''/venv/bin/python''] ''yapf'' [''yapf''] True ''/ws''
            (''x=1'' @ [LF])]
   \<and> \<not> fst (is_ignored example_env example_document example_process)
   \<and> \<not> is_stdlib_file example_env (path example_document)
   \<and> invocations (trace (snd (formatting_helper example_env example_document None
                                 example_process)))
       = [RunpyRunModule ''yapf'' [''yapf''] ''/ws'' (''x=1'' @ [LF])]"
proof -
  have i: "\<not> fst (is_ignored failing_executable_env example_document example_process)"
    "\<not> fst (is_ignored rpc_exception_env example_document example_process)"
    "\<not> fst (is_ignored example_env example_document example_process)"
    by (simp_all add: examples_not_ignored)
  have t: "trace example_process = []" by (simp add: example_process_def)
  have a: "invocations (trace (snd (formatting_helper failing_executable_env example_document None
                                 example_process)))
       = [Popen [''/opt/yapf''] ''/ws'' True (Some (''x=1'' @ [LF]))]"
    using backend_priority[OF i(1) examples_not_stdlib(2), of None]
    by (simp add: Let_def example_tool_input executable_settings TOOL_ARGS_def t)
  have b: "invocations (trace (snd (formatting_helper rpc_exception_env example_document None
                                 example_process)))
       = [JsonRpcRequest ''/ws'' [''/venv/bin/python''] ''yapf'' [''yapf''] True ''/ws''
            (''x=1'' @ [LF])]"
    using backend_priority[OF i(2) examples_not_stdlib(4), of None]
    by (simp add: Let_def example_tool_input rpc_settings TOOL_ARGS_def TOOL_MODULE_def t
        example_interpreters)
  have c: "invocations (trace (snd (formatting_helper example_env example_document None
                                 example_process)))
       = [RunpyRunModule ''yapf'' [''yapf''] ''/ws'' (''x=1'' @ [LF])]"
    using backend_priority[OF i(3) examples_not_stdlib(1), of None]
    by (simp add: Let_def example_tool_input example_settings TOOL_ARGS_def TOOL_MODULE_def t
        example_interpreters example_run_cwd)
  show ?thesis using i examples_not_stdlib a b c by simp
qed

subsection \<open>Range formatting\<close>

text \<open>
  C3.  A range-formatting request with the zero-based range from \<open>start.line\<close> to
  \<open>end.line\<close> runs the formatter with the extra arguments \<open>-l\<close> and
  \<open>(start.line + 1)-(end.line + 1)\<close> at the end of its argument vector.  For an ignored
  document, or one under a site-packages path, no formatter runs; otherwise exactly one
  does.
\<close>

theorem range_formatting_line_arguments:
  "let extra = [''-l'', str_int (line (range_start rng) + 1) @ ''-''
                         @ str_int (line (range_end rng) + 1)];
       settings = get_settings_by_document env document;
       runs = invocations (trace (snd (range_formatting env document rng p)))
   in if fst (is_ignored env document p) \<or> is_stdlib_file env (path document)
      then runs = invocations (trace p)
      else \<exists>run. runs = invocations (trace p) @ [run] \<and>
                 invocation_argv run =
                   (if s_path settings \<noteq> [] then s_path settings else [TOOL_MODULE])
                   @ TOOL_ARGS @ s_args settings @ extra"
proof (cases "fst (is_ignored env document p) \<or> is_stdlib_file env (path document)")
  case True
  then show ?thesis
    using formatting_helper_no_invocation[OF True]
    by (simp add: range_formatting_is_helper Let_def)
next
  case False
  then have ni: "\<not> fst (is_ignored env document p)" and ns: "\<not> is_stdlib_file env (path document)"
    by simp_all
  show ?thesis
    using False formatting_helper_invocation[OF ni ns refl refl]
    by (simp add: range_formatting_is_helper Let_def tool_argv_def use_path_def)
qed

lemma str_int_examples: "str_int 3 = ''3''" "str_int 5 = ''5''" "str_int 12 = ''12''"
  by (simp_all add: str_int_def digits_of.simps)

theorem range_formatting_line_arguments_witness:
  "\<not> fst (is_ignored example_env example_document example_process)
   \<and> \<not> is_stdlib_file example_env (path example_document)
   \<and> invocations
        (trace (snd (range_formatting example_env example_document
                       \<lparr>range_start = \<lparr>line = 2, character = 0\<rparr>,
                        range_end = \<lparr>line = 4, character = 7\<rparr>\<rparr> example_process)))
       = [RunpyRunModule ''yapf'' [''yapf'', ''-l'', ''3-5''] ''/ws'' (''x=1'' @ [LF])]"
proof -
  let ?rng = "\<lparr>range_start = \<lparr>line = 2, character = 0\<rparr>, range_end = \<lparr>line = 4, character = 7\<rparr>\<rparr>"
  have i: "\<not> fst (is_ignored example_env example_document example_process)"
    by (simp add: examples_not_ignored)
  have t: "trace example_process = []" by (simp add: example_process_def)
  have h: "invocations (trace (snd (formatting_helper example_env example_document
             (Some [''-l'', ''3-5'']) example_process)))
           = [RunpyRunModule ''yapf'' [''yapf'', ''-l'', ''3-5''] ''/ws'' (''x=1'' @ [LF])]"
    using formatting_helper_invocation[OF i examples_not_stdlib(1) refl refl, of "Some [''-l'', ''3-5'']"]
    by (simp add: example_settings use_path_def use_rpc_def example_interpreters tool_argv_def
        TOOL_ARGS_def TOOL_MODULE_def example_tool_input example_run_cwd t)
  from range_formatting_line_arguments[of ?rng example_env example_document example_process] i
    examples_not_stdlib(1) h
  show ?thesis
    by (simp add: Let_def range_formatting_is_helper str_int_examples)
qed

subsection \<open>The response to a formatting request\<close>

lemma run_tool_on_document_result:
  assumes "\<not> is_stdlib_file env (path document)"
    and "fst (run_tool_on_document env document True extra p) = Returns r"
  shows "\<exists>result. r = Some result"
  using assms(2)
  unfolding run_tool_on_document_unfold[OF assms(1) refl refl refl refl]
  by (auto split: outcome.splits)

lemma formatting_helper_fst:
  assumes "\<not> fst (is_ignored env document p)"
  shows "fst (formatting_helper env document extra p) =
     (case fst (run_tool_on_document env document True extra (snd (is_ignored env document p))) of
        Raises e \<Rightarrow> Raises e
      | Returns None \<Rightarrow> Raises AttributeError
      | Returns (Some result) \<Rightarrow>
          if stdout result \<noteq> []
          then Returns (Some
                 [\<lparr>edit_range =
                     \<lparr>range_start = \<lparr>line = 0, character = 0\<rparr>,
                      range_end = \<lparr>line = int (length (lines document)), character = 0\<rparr>\<rparr>,
                   new_text = match_line_endings document (stdout result)\<rparr>])
          else Returns None)"
  unfolding formatting_helper_not_ignored[OF assms]
  by (simp split: outcome.splits option.splits)

text \<open>
  C1, as stated, fails when the run of the formatter raises: with the \<open>path\<close> setting naming
  an executable that cannot be started, the handler raises and gives neither \<open>None\<close> nor
  an edit.
\<close>

theorem formatting_raises_counterexample:
  "\<not> fst (is_ignored missing_executable_env example_document example_process)
   \<and> fst (formatting missing_executable_env example_document example_process)
       = Raises (Exception ''FileNotFoundError'')"
proof -
  have i: "\<not> fst (is_ignored missing_executable_env example_document example_process)"
    by (simp add: examples_not_ignored)
  have u: "use_path (get_settings_by_document missing_executable_env example_document)"
    by (simp add: use_path_def executable_settings)
  have "fst (run_tool_on_document missing_executable_env example_document True None
               (snd (is_ignored missing_executable_env example_document example_process)))
        = Raises (Exception ''FileNotFoundError'')"
    unfolding run_tool_on_document_path(1)[OF examples_not_stdlib(3) refl u refl]
    by (simp add: missing_executable_env_def)
  then show ?thesis
    using i by (simp add: formatting_is_helper formatting_helper_fst[OF i])
qed

text \<open>
  C1, amended.  For a full-document formatting request whose document is not ignored and
  not under a site-packages path, and for which the run of the formatter returns (raises
  no exception), the run gives a result, and the response is \<open>None\<close> when the stdout of
  that result is empty, and otherwise exactly one edit from line 0, character 0 to line
  \<open>len(document.lines)\<close>, character 0, whose new text is that stdout with its line endings
  matched to the document.
\<close>

theorem formatting_response:
  assumes "\<not> fst (is_ignored env document p)"
    and "\<not> is_stdlib_file env (path document)"
    and "fst (run_tool_on_document env document True None (snd (is_ignored env document p)))
           = Returns r"
  shows "\<exists>result. r = Some result \<and>
           fst (formatting env document p) =
             (if stdout result = [] then Returns None
              else Returns (Some
                     [\<lparr>edit_range =
                         \<lparr>range_start = \<lparr>line = 0, character = 0\<rparr>,
                          range_end = \<lparr>line = int (length (lines document)), character = 0\<rparr>\<rparr>,
                       new_text = match_line_endings document (stdout result)\<rparr>]))"
proof -
  obtain result where r: "r = Some result"
    using run_tool_on_document_result[OF assms(2,3)] by blast
  have "fst (formatting env document p) =
             (if stdout result = [] then Returns None
              else Returns (Some
                     [\<lparr>edit_range =
                         \<lparr>range_start = \<lparr>line = 0, character = 0\<rparr>,
                          range_end = \<lparr>line = int (length (lines document)), character = 0\<rparr>\<rparr>,
                       new_text = match_line_endings document (stdout result)\<rparr>]))"
    using assms(3) r by (simp add: formatting_is_helper formatting_helper_fst[OF assms(1)])
  then show ?thesis using r by blast
qed

lemma example_module_run:
  "fst (run_tool_on_document example_env example_document True None example_process)
     = Returns (Some \<lparr>stdout = ''x = 1'' @ [LF], stderr = []\<rparr>)"
proof -
  have np: "\<not> use_path (get_settings_by_document example_env example_document)"
    and nr: "\<not> use_rpc example_env (get_settings_by_document example_env example_document)"
    by (simp_all add: use_path_def use_rpc_def example_settings example_interpreters)
  show ?thesis
    unfolding run_tool_on_document_module(1)[OF examples_not_stdlib(1) refl np nr refl refl]
    by (simp add: example_env_def example_plain_document)
qed

lemma example_match: "match_line_endings example_document (''x = 1'' @ [LF]) = ''x = 1'' @ [LF]"
  by (simp add: match_line_endings_def get_line_endings_def splitlines_keepends_def
      example_source is_line_boundary_def)

theorem formatting_response_witness:
  "\<not> fst (is_ignored example_env example_document example_process)
   \<and> \<not> is_stdlib_file example_env (path example_document)
   \<and> fst (run_tool_on_document example_env example_document True None
             (snd (is_ignored example_env example_document example_process)))
       = Returns (Some \<lparr>stdout = ''x = 1'' @ [LF], stderr = []\<rparr>)
   \<and> fst (formatting example_env example_document example_process)
       = Returns (Some
           [\<lparr>edit_range =
               \<lparr>range_start = \<lparr>line = 0, character = 0\<rparr>,
                range_end = \<lparr>line = 1, character = 0\<rparr>\<rparr>,
             new_text = ''x = 1'' @ [LF]\<rparr>])"
proof -
  have i: "\<not> fst (is_ignored example_env example_document example_process)"
    by (simp add: examples_not_ignored)
  have r: "fst (run_tool_on_document example_env example_document True None
             (snd (is_ignored example_env example_document example_process)))
       = Returns (Some \<lparr>stdout = ''x = 1'' @ [LF], stderr = []\<rparr>)"
    by (simp add: examples_not_ignored example_module_run)
  have l: "lines example_document = [''x=1'' @ [LF]]" by (simp add: example_document_def)
  from formatting_response[OF i examples_not_stdlib(1) r] i examples_not_stdlib(1) r
  show ?thesis using example_match by (simp add: l)
qed

subsection \<open>What is logged when a run fails\<close>

lemma run_tool_on_document_trace:
  assumes "\<not> is_stdlib_file env (path document)"
    and "settings = get_settings_by_document env document"
    and "argv = tool_argv settings document use_stdin (case extra of None \<Rightarrow> [] | Some a \<Rightarrow> a)"
    and "p1 = (if has_magics env document
               then log_debug (''cellMagics: '' @ repr_list env (configured_magics settings)) settings p
               else p)"
    and "branch =
           (if use_path settings
            then run_tool_by_path env argv use_stdin (s_cwd settings) (tool_input env settings document) p1
            else if use_rpc env settings
            then run_tool_by_rpc env settings argv use_stdin (s_cwd settings)
                   (tool_input env settings document) p1
            else run_tool_as_module env argv use_stdin (s_cwd settings)
                   (tool_input env settings document) p1)"
  shows "set (trace (snd branch))
           \<subseteq> set (trace (snd (run_tool_on_document env document use_stdin extra p)))"
  unfolding run_tool_on_document_unfold[OF assms]
  by (cases "fst branch") auto

lemma module_exception_logged:
  assumes "\<not> is_stdlib_file env (path document)"
    and "settings = get_settings_by_document env document"
    and "\<not> use_path settings" and "\<not> use_rpc env settings"
    and "argv = tool_argv settings document True (case extra of None \<Rightarrow> [] | Some a \<Rightarrow> a)"
    and "run = module_main env TOOL_MODULE argv (run_cwd env p (s_cwd settings))
                 (tool_input env settings document)"
    and "ended run = Some e" and "e \<noteq> SystemExit"
  shows "set (log_error_events env (format_exc env e))
           \<subseteq> set (trace (snd (run_tool_on_document env document True extra p)))"
proof -
  let ?p1 = "if has_magics env document
               then log_debug (''cellMagics: '' @ repr_list env (configured_magics settings)) settings p
               else p"
  let ?b = "run_tool_as_module env argv True (s_cwd settings)
              (tool_input env settings document) ?p1"
  have "set (trace (snd ?b)) \<subseteq> set (trace (snd (run_tool_on_document env document True extra p)))"
    using run_tool_on_document_trace[OF assms(1,2,5) refl refl, of p] assms(3,4) by simp
  moreover have "set (log_error_events env (format_exc env e)) \<subseteq> set (trace (snd ?b))"
    using assms(6,7,8) by (auto simp: run_tool_as_module_trace Let_def)
  ultimately show ?thesis by blast
qed

lemma path_stderr_logged:
  assumes "\<not> is_stdlib_file env (path document)"
    and "settings = get_settings_by_document env document"
    and "use_path settings"
    and "argv = tool_argv settings document True (case extra of None \<Rightarrow> [] | Some a \<Rightarrow> a)"
    and "communicate env argv (s_cwd settings) True (Some (tool_input env settings document))
           = Returns (out, err, returncode)"
    and "err \<noteq> []"
  shows "ShowMessageLog err Log
           \<in> set (trace (snd (run_tool_on_document env document True extra p)))"
proof -
  let ?p1 = "if has_magics env document
               then log_debug (''cellMagics: '' @ repr_list env (configured_magics settings)) settings p
               else p"
  let ?b = "run_tool_by_path env argv True (s_cwd settings) (tool_input env settings document) ?p1"
  have "set (trace (snd ?b)) \<subseteq> set (trace (snd (run_tool_on_document env document True extra p)))"
    using run_tool_on_document_trace[OF assms(1,2,4) refl refl, of p] assms(3) by simp
  moreover have "ShowMessageLog err Log \<in> set (trace (snd ?b))"
    using assms(5,6) by (auto simp: run_tool_by_path_trace)
  ultimately show ?thesis by blast
qed

lemma rpc_exception_logged:
  assumes "\<not> is_stdlib_file env (path document)"
    and "settings = get_settings_by_document env document"
    and "\<not> use_path settings" and "use_rpc env settings"
    and "argv = tool_argv settings document True (case extra of None \<Rightarrow> [] | Some a \<Rightarrow> a)"
    and "result = run_over_json_rpc env (s_workspaceFS settings) (s_interpreter settings)
                    TOOL_MODULE argv True (s_cwd settings) (tool_input env settings document)"
    and "rpc_exception result = Some e" and "e \<noteq> []"
  shows "set (log_error_events env e)
           \<subseteq> set (trace (snd (run_tool_on_document env document True extra p)))"
proof -
  let ?p1 = "if has_magics env document
               then log_debug (''cellMagics: '' @ repr_list env (configured_magics settings)) settings p
               else p"
  let ?b = "run_tool_by_rpc env settings argv True (s_cwd settings)
              (tool_input env settings document) ?p1"
  have "set (trace (snd ?b)) \<subseteq> set (trace (snd (run_tool_on_document env document True extra p)))"
    using run_tool_on_document_trace[OF assms(1,2,5) refl refl, of p] assms(3,4) by simp
  moreover have "set (log_error_events env e) \<subseteq> set (trace (snd ?b))"
    using assms(6,7,8) by (auto simp: run_tool_by_rpc_trace Let_def)
  ultimately show ?thesis by blast
qed

lemma formatting_trace:
  assumes "\<not> fst (is_ignored env document p)"
  shows "trace (snd (formatting env document p)) =
         trace (snd (run_tool_on_document env document True None (snd (is_ignored env document p))))"
  by (simp add: formatting_is_helper formatting_helper_snd[OF assms])

lemma formatting_of_result:
  assumes "\<not> fst (is_ignored env document p)"
    and "fst (run_tool_on_document env document True None (snd (is_ignored env document p)))
           = Returns (Some result)"
  shows "\<exists>r. fst (formatting env document p) = Returns r \<and> (r = None \<longleftrightarrow> stdout result = [])"
  using assms(2) by (simp add: formatting_is_helper formatting_helper_fst[OF assms(1)])

subsection \<open>Failures of the formatter\<close>

text \<open>
  C5, as stated, fails: an exception raised by the formatter run in this process is not
  turned into an empty stdout.  It is logged and raised again, so the handler raises
  instead of returning \<open>None\<close>.
\<close>

theorem formatter_exception_counterexample:
  "\<not> fst (is_ignored crashing_tool_env example_document example_process)
   \<and> ended (module_main crashing_tool_env TOOL_MODULE [''yapf''] ''/ws'' (''x=1'' @ [LF]))
       = Some (Exception ''RuntimeError'')
   \<and> fst (formatting crashing_tool_env example_document example_process)
       = Raises (Exception ''RuntimeError'')"
proof -
  have i: "\<not> fst (is_ignored crashing_tool_env example_document example_process)"
    by (simp add: examples_not_ignored)
  have cur: "is_current_interpreter crashing_tool_env ''/usr/bin/python3''"
    by (simp add: is_current_interpreter_def is_same_path_def crashing_tool_env_def example_env_def)
  have np: "\<not> use_path (get_settings_by_document crashing_tool_env example_document)"
    and nr: "\<not> use_rpc crashing_tool_env (get_settings_by_document crashing_tool_env example_document)"
    by (simp_all add: use_path_def use_rpc_def crashing_settings cur)
  have e: "ended (module_main crashing_tool_env m a c s) = Some (Exception ''RuntimeError'')"
    for m a c s
    by (simp add: crashing_tool_env_def)
  have "fst (run_tool_on_document crashing_tool_env example_document True None
               (snd (is_ignored crashing_tool_env example_document example_process)))
        = Raises (Exception ''RuntimeError'')"
    unfolding run_tool_on_document_module(1)[OF examples_not_stdlib(5) refl np nr refl refl]
    by (simp add: e)
  then show ?thesis
    using i e by (simp add: formatting_is_helper formatting_helper_fst[OF i])
qed

text \<open>
  C5, amended.  For a document that is not ignored and not under a site-packages path:
  \<^item> when the formatter is an executable (non-empty \<open>path\<close> setting) and the child process
    finishes, with whatever exit status, the handler returns, and it returns \<open>None\<close>
    exactly when the captured stdout (after the notebook post-processing) is empty; a
    non-empty stderr is logged;
  \<^item> when the formatter runs in this process and returns or ends with \<open>SystemExit\<close>, the
    same holds for what it wrote to stdout;
  \<^item> when the formatter run in this process raises another exception, the exception is
    logged with \<open>log_error\<close> and raised again: the handler raises it.
\<close>

theorem formatter_failure_handling:
  assumes "\<not> fst (is_ignored env document p)" and "\<not> is_stdlib_file env (path document)"
    and "settings = get_settings_by_document env document"
    and "source_text = tool_input env settings document"
    and "arguments = TOOL_ARGS @ s_args settings"
    and "run = module_main env TOOL_MODULE ([TOOL_MODULE] @ arguments)
                 (run_cwd env p (s_cwd settings)) source_text"
  shows
    "(s_path settings \<noteq> [] \<longrightarrow>
        (\<forall>out err returncode.
           communicate env (s_path settings @ arguments) (s_cwd settings) True (Some source_text)
             = Returns (out, err, returncode) \<longrightarrow>
           (\<exists>r. fst (formatting env document p) = Returns r \<and>
                (r = None \<longleftrightarrow> tool_output env document out = [])) \<and>
           (err \<noteq> [] \<longrightarrow> ShowMessageLog err Log \<in> set (trace (snd (formatting env document p))))))
     \<and> (s_path settings = [] \<and>
         (s_interpreter settings = [] \<or> is_current_interpreter env (hd (s_interpreter settings))) \<longrightarrow>
          (ended run = None \<or> ended run = Some SystemExit \<longrightarrow>
             (\<exists>r. fst (formatting env document p) = Returns r \<and>
                  (r = None \<longleftrightarrow> tool_output env document (wrote_stdout run) = []))) \<and>
          (\<forall>e. ended run = Some e \<and> e \<noteq> SystemExit \<longrightarrow>
             fst (formatting env document p) = Raises e \<and>
             set (log_error_events env (format_exc env e))
               \<subseteq> set (trace (snd (formatting env document p)))))"
proof (intro conjI impI allI)
  fix out err returncode
  assume sp: "s_path settings \<noteq> []"
    and c: "communicate env (s_path settings @ arguments) (s_cwd settings) True (Some source_text)
             = Returns (out, err, returncode)"
  let ?q = "snd (is_ignored env document p)"
  have up: "use_path settings" using sp by (simp add: use_path_def)
  have argv: "s_path settings @ arguments = tool_argv settings document True (case None of None \<Rightarrow> [] | Some a \<Rightarrow> a)"
    using up assms(5) by (simp add: tool_argv_def)
  have c': "communicate env (s_path settings @ arguments) (s_cwd settings) True
              (Some (tool_input env settings document)) = Returns (out, err, returncode)"
    using c assms(4) by simp
  have "fst (run_tool_on_document env document True None ?q)
        = Returns (Some \<lparr>stdout = tool_output env document out, stderr = err\<rparr>)"
    unfolding run_tool_on_document_path(1)[OF assms(2,3) up argv] using c' by simp
  from formatting_of_result[OF assms(1) this]
  show "\<exists>r. fst (formatting env document p) = Returns r \<and>
            (r = None \<longleftrightarrow> tool_output env document out = [])"
    by simp
  assume "err \<noteq> []"
  from path_stderr_logged[OF assms(2,3) up argv c' this, of ?q]
  show "ShowMessageLog err Log \<in> set (trace (snd (formatting env document p)))"
    by (simp add: formatting_trace[OF assms(1)])
next
  assume m: "s_path settings = [] \<and>
         (s_interpreter settings = [] \<or> is_current_interpreter env (hd (s_interpreter settings)))"
  let ?q = "snd (is_ignored env document p)"
  have np: "\<not> use_path settings" and nr: "\<not> use_rpc env settings"
    using m by (auto simp: use_path_def use_rpc_def)
  have argv: "[TOOL_MODULE] @ arguments = tool_argv settings document True (case None of None \<Rightarrow> [] | Some a \<Rightarrow> a)"
    using np assms(5) by (simp add: tool_argv_def)
  have run: "run = module_main env TOOL_MODULE ([TOOL_MODULE] @ arguments)
                     (run_cwd env ?q (s_cwd settings)) (tool_input env settings document)"
    using assms(4,6) by simp
  {
    assume "ended run = None \<or> ended run = Some SystemExit"
    then have "fst (run_tool_on_document env document True None ?q)
        = Returns (Some \<lparr>stdout = tool_output env document (wrote_stdout run),
                         stderr = wrote_stderr run\<rparr>)"
      unfolding run_tool_on_document_module(1)[OF assms(2,3) np nr argv run] by simp
    from formatting_of_result[OF assms(1) this]
    show "\<exists>r. fst (formatting env document p) = Returns r \<and>
            (r = None \<longleftrightarrow> tool_output env document (wrote_stdout run) = [])"
      by simp
  }
  fix e
  assume e: "ended run = Some e \<and> e \<noteq> SystemExit"
  then have "fst (run_tool_on_document env document True None ?q) = Raises e"
    unfolding run_tool_on_document_module(1)[OF assms(2,3) np nr argv run] by simp
  then show "fst (formatting env document p) = Raises e"
    by (simp add: formatting_is_helper formatting_helper_fst[OF assms(1)])
  from module_exception_logged[OF assms(2,3) np nr argv run, of e] e
  show "set (log_error_events env (format_exc env e))
               \<subseteq> set (trace (snd (formatting env document p)))"
    by (simp add: formatting_trace[OF assms(1)])
qed


theorem formatter_failure_handling_witness:
  "\<not> fst (is_ignored failing_executable_env example_document example_process)
   \<and> \<not> is_stdlib_file failing_executable_env (path example_document)
   \<and> s_path (get_settings_by_document failing_executable_env example_document) = [''/opt/yapf'']
   \<and> communicate failing_executable_env [''/opt/yapf''] ''/ws'' True (Some (''x=1'' @ [LF]))
       = Returns (''x = 1'' @ [LF], ''warning'', 1)
   \<and> (\<exists>r. fst (formatting failing_executable_env example_document example_process) = Returns r
            \<and> r \<noteq> None)
   \<and> ShowMessageLog ''warning'' Log
       \<in> set (trace (snd (formatting failing_executable_env example_document example_process)))
   \<and> \<not> fst (is_ignored crashing_tool_env example_document example_process)
   \<and> \<not> is_stdlib_file crashing_tool_env (path example_document)
   \<and> s_path (get_settings_by_document crashing_tool_env example_document) = []
   \<and> is_current_interpreter crashing_tool_env
         (hd (s_interpreter (get_settings_by_document crashing_tool_env example_document)))
   \<and> ended (module_main crashing_tool_env TOOL_MODULE [''yapf''] ''/ws'' (''x=1'' @ [LF]))
       = Some (Exception ''RuntimeError'')
   \<and> fst (formatting crashing_tool_env example_document example_process)
       = Raises (Exception ''RuntimeError'')
   \<and> ShowMessageLog ''Traceback'' Error
       \<in> set (trace (snd (formatting crashing_tool_env example_document example_process)))"
proof -
  have i: "\<not> fst (is_ignored failing_executable_env example_document example_process)"
    "\<not> fst (is_ignored crashing_tool_env example_document example_process)"
    by (simp_all add: examples_not_ignored)
  have c: "communicate failing_executable_env a w u s = Returns (''x = 1'' @ [LF], ''warning'', 1)"
    for a w u s
    by (simp add: failing_executable_env_def)
  have cur: "is_current_interpreter crashing_tool_env ''/usr/bin/python3''"
    by (simp add: is_current_interpreter_def is_same_path_def crashing_tool_env_def example_env_def)
  have e: "ended (module_main crashing_tool_env m a w s) = Some (Exception ''RuntimeError'')"
    for m a w s
    by (simp add: crashing_tool_env_def)
  have x: "log_error_events crashing_tool_env (format_exc crashing_tool_env ex)
           = [ShowMessageLog ''Traceback'' Error]" for ex
    by (simp add: log_error_events_def crashing_tool_env_def example_env_def)
  have a: "(\<exists>r. fst (formatting failing_executable_env example_document example_process) = Returns r
            \<and> r \<noteq> None)
     \<and> ShowMessageLog ''warning'' Log
       \<in> set (trace (snd (formatting failing_executable_env example_document example_process)))"
    using formatter_failure_handling[OF i(1) examples_not_stdlib(2) refl refl refl refl] c
    by (simp add: executable_settings example_tool_input example_plain_document TOOL_ARGS_def)
  have b: "fst (formatting crashing_tool_env example_document example_process)
       = Raises (Exception ''RuntimeError'')
     \<and> ShowMessageLog ''Traceback'' Error
       \<in> set (trace (snd (formatting crashing_tool_env example_document example_process)))"
    using formatter_failure_handling[OF i(2) examples_not_stdlib(5) refl refl refl refl] e cur x
    by (simp add: crashing_settings)
  show ?thesis
    using i examples_not_stdlib(2,5) a b c e cur
    by (simp add: executable_settings crashing_settings)
qed

subsection \<open>Failures of the request to another interpreter\<close>

lemma rpc_example_facts:
  "\<not> use_path (get_settings_by_document rpc_exception_env example_document)"
  "use_rpc rpc_exception_env (get_settings_by_document rpc_exception_env example_document)"
  by (simp_all add: use_path_def use_rpc_def rpc_settings example_interpreters)

lemma decode_cell_magic_empty: "decode_cell_magic [] = []"
  by (simp add: decode_cell_magic_def decode_line_magic_def str_replace_def mask_def)

lemma tool_output_empty: "tool_output env document [] = []"
  by (simp add: tool_output_def Let_def decode_cell_magic_empty rstrip_def)

lemma run_over_json_rpc_exception:
  assumes "rpc_exception (run_over_json_rpc env workspace interpreter module argv use_stdin cwd
             source_text) = Some e"
  shows "run_over_json_rpc env workspace interpreter module argv use_stdin cwd source_text
           = \<lparr>rpc_stdout = [], rpc_stderr = [], rpc_exception = Some e\<rparr>"
  using assms by (simp add: run_over_json_rpc_def split: sum.splits prod.splits)

text \<open>
  C6.  When the formatter runs under another interpreter and the result of
  \<open>run_over_json_rpc\<close> carries an exception (a text that is not empty, which is what the code
  tests before it logs), the exception is logged with \<open>log_error\<close>, the run gives a result
  whose stdout and stderr are empty, and the handler returns \<open>None\<close>: nothing is raised and
  no edit reaches the editor.  The handlers \<open>formatting\<close> and \<open>range_formatting\<close> are
  \<open>formatting_helper\<close> without extra arguments and with the line arguments.
\<close>

theorem rpc_failure_gives_no_edit:
  assumes "\<not> fst (is_ignored env document p)" and "\<not> is_stdlib_file env (path document)"
    and "settings = get_settings_by_document env document"
    and "s_path settings = []" and "s_interpreter settings \<noteq> []"
    and "\<not> is_current_interpreter env (hd (s_interpreter settings))"
    and "rpc_exception
           (run_over_json_rpc env (s_workspaceFS settings) (s_interpreter settings) TOOL_MODULE
              ([TOOL_MODULE] @ TOOL_ARGS @ s_args settings
                 @ (case extra of None \<Rightarrow> [] | Some a \<Rightarrow> a))
              True (s_cwd settings) (tool_input env settings document)) = Some e"
    and "e \<noteq> []"
  shows "fst (run_tool_on_document env document True extra (snd (is_ignored env document p)))
           = Returns (Some \<lparr>stdout = [], stderr = []\<rparr>)
         \<and> fst (formatting_helper env document extra p) = Returns None
         \<and> set (log_error_events env e)
             \<subseteq> set (trace (snd (formatting_helper env document extra p)))"
proof -
  let ?q = "snd (is_ignored env document p)"
  let ?argv = "[TOOL_MODULE] @ TOOL_ARGS @ s_args settings
                 @ (case extra of None \<Rightarrow> [] | Some a \<Rightarrow> a)"
  let ?result = "run_over_json_rpc env (s_workspaceFS settings) (s_interpreter settings)
                   TOOL_MODULE ?argv True (s_cwd settings) (tool_input env settings document)"
  have np: "\<not> use_path settings" and ur: "use_rpc env settings"
    using assms(4,5,6) by (simp_all add: use_path_def use_rpc_def)
  have argv: "?argv = tool_argv settings document True (case extra of None \<Rightarrow> [] | Some a \<Rightarrow> a)"
    using np by (simp add: tool_argv_def)
  have r: "?result = \<lparr>rpc_stdout = [], rpc_stderr = [], rpc_exception = Some e\<rparr>"
    using assms(7) by (rule run_over_json_rpc_exception)
  have a: "fst (run_tool_on_document env document True extra ?q)
        = Returns (Some \<lparr>stdout = [], stderr = []\<rparr>)"
    unfolding run_tool_on_document_rpc(1)[OF assms(2,3) np ur argv refl] r
    by (simp add: tool_output_empty)
  have b: "fst (formatting_helper env document extra p) = Returns None"
    unfolding formatting_helper_fst[OF assms(1)] a by simp
  from rpc_exception_logged[OF assms(2,3) np ur argv refl assms(7,8), of ?q]
  have c: "set (log_error_events env e)
             \<subseteq> set (trace (snd (formatting_helper env document extra p)))"
    by (simp add: formatting_helper_snd[OF assms(1)])
  from a b c show ?thesis by blast
qed

theorem rpc_failure_gives_no_edit_witness:
  "\<not> fst (is_ignored rpc_exception_env example_document example_process)
   \<and> \<not> is_stdlib_file rpc_exception_env (path example_document)
   \<and> s_path (get_settings_by_document rpc_exception_env example_document) = []
   \<and> s_interpreter (get_settings_by_document rpc_exception_env example_document)
       = [''/venv/bin/python'']
   \<and> \<not> is_current_interpreter rpc_exception_env ''/venv/bin/python''
   \<and> run_over_json_rpc rpc_exception_env ''/ws'' [''/venv/bin/python''] ''yapf'' [''yapf''] True
        ''/ws'' (''x=1'' @ [LF])
       = \<lparr>rpc_stdout = [], rpc_stderr = [], rpc_exception = Some ''Traceback''\<rparr>
   \<and> fst (formatting rpc_exception_env example_document example_process) = Returns None
   \<and> ShowMessageLog ''Traceback'' Error
       \<in> set (trace (snd (formatting rpc_exception_env example_document example_process)))"
proof -
  have i: "\<not> fst (is_ignored rpc_exception_env example_document example_process)"
    by (simp add: examples_not_ignored)
  have c: "run_over_json_rpc rpc_exception_env w ip m a u d s
       = \<lparr>rpc_stdout = [], rpc_stderr = [], rpc_exception = Some ''Traceback''\<rparr>"
    for w ip m a u d s
    by (simp add: run_over_json_rpc_def rpc_exception_env_def)
  have s: "s_path (get_settings_by_document rpc_exception_env example_document) = []"
    "s_interpreter (get_settings_by_document rpc_exception_env example_document) \<noteq> []"
    "\<not> is_current_interpreter rpc_exception_env
         (hd (s_interpreter (get_settings_by_document rpc_exception_env example_document)))"
    by (simp_all add: rpc_settings example_interpreters)
  have x: "log_error_events rpc_exception_env ''Traceback'' = [ShowMessageLog ''Traceback'' Error]"
    by (simp add: log_error_events_def rpc_exception_env_def example_env_def)
  have e: "rpc_exception
       (run_over_json_rpc rpc_exception_env
          (s_workspaceFS (get_settings_by_document rpc_exception_env example_document))
          (s_interpreter (get_settings_by_document rpc_exception_env example_document))
          TOOL_MODULE
          ([TOOL_MODULE] @ TOOL_ARGS
             @ s_args (get_settings_by_document rpc_exception_env example_document)
             @ (case None of None \<Rightarrow> [] | Some a \<Rightarrow> a))
          True (s_cwd (get_settings_by_document rpc_exception_env example_document))
          (tool_input rpc_exception_env
             (get_settings_by_document rpc_exception_env example_document) example_document))
       = Some ''Traceback''"
    unfolding c by simp
  have n: "''Traceback'' \<noteq> []" by simp
  from rpc_failure_gives_no_edit[OF i examples_not_stdlib(4) refl s e n] x
  have "fst (formatting rpc_exception_env example_document example_process) = Returns None
     \<and> ShowMessageLog ''Traceback'' Error
       \<in> set (trace (snd (formatting rpc_exception_env example_document example_process)))"
    by (simp add: formatting_is_helper)
  then show ?thesis
    using i examples_not_stdlib(4) c example_interpreters by (simp add: rpc_settings)
qed

subsection \<open>What a run in this process leaves behind\<close>

text \<open>
  After \<open>_run_module\<close> with the source on stdin: when the module returns, \<open>sys.argv\<close> and the
  three streams are what they were before the call; when it ends with \<open>SystemExit\<close> or
  another exception, the statements after \<open>yield\<close> are skipped and \<open>sys.argv\<close> and the
  streams stay substituted.
\<close>

lemma private_run_module_attributes:
  "sys_argv (snd (private_run_module env module argv True (Some src) p)) =
     (if ended (module_main env module argv (os_cwd p) src) = None then sys_argv p else argv)"
  "sys_stdout (snd (private_run_module env module argv True (Some src) p)) =
     (if ended (module_main env module argv (os_cwd p) src) = None then sys_stdout p
      else next_stream p)"
  "sys_stderr (snd (private_run_module env module argv True (Some src) p)) =
     (if ended (module_main env module argv (os_cwd p) src) = None then sys_stderr p
      else Suc (next_stream p))"
  "sys_stdin (snd (private_run_module env module argv True (Some src) p)) =
     (if ended (module_main env module argv (os_cwd p) src) = None then sys_stdin p
      else Suc (Suc (next_stream p)))"
  "os_cwd (snd (private_run_module env module argv True (Some src) p)) = os_cwd p"
  by (simp_all add: private_run_module_def substitute_attr_def redirect_io_def CustomIO_def
      YapfIO_def runpy_run_module_def stream_write_def get_value_def Let_def
      split: option.splits prod.splits)

lemma run_module_restores_on_return:
  assumes "ended (module_main env module argv (run_cwd env p cwd) src) = None"
  shows "sys_argv (snd (run_module env module argv True cwd (Some src) p)) = sys_argv p
       \<and> sys_stdout (snd (run_module env module argv True cwd (Some src) p)) = sys_stdout p
       \<and> sys_stderr (snd (run_module env module argv True cwd (Some src) p)) = sys_stderr p
       \<and> sys_stdin (snd (run_module env module argv True cwd (Some src) p)) = sys_stdin p
       \<and> os_cwd (snd (run_module env module argv True cwd (Some src) p)) =
           (if is_same_path env (os_cwd p) cwd then os_cwd p else SERVER_CWD env)"
proof (cases "is_same_path env (os_cwd p) cwd")
  case True
  then show ?thesis
    using assms by (simp add: run_module_def run_cwd_def private_run_module_attributes)
next
  case False
  let ?p = "p\<lparr>os_cwd := cwd\<rparr>"
  obtain r q where rq: "private_run_module env module argv True (Some src) ?p = (r, q)"
    by (cases "private_run_module env module argv True (Some src) ?p")
  have e: "ended (module_main env module argv (os_cwd ?p) src) = None"
    using assms False by (simp add: run_cwd_def)
  have "r = fst (private_run_module env module argv True (Some src) ?p)" using rq by simp
  then obtain v where r: "r = Returns v"
    using e by (simp add: private_run_module_stdin_fst Let_def)
  have q: "q = snd (private_run_module env module argv True (Some src) ?p)" using rq by simp
  have "snd (run_module env module argv True cwd (Some src) p) = q\<lparr>os_cwd := SERVER_CWD env\<rparr>"
    using False rq r by (simp add: run_module_def change_cwd_def)
  then show ?thesis
    using False e by (simp add: q private_run_module_attributes)
qed

text \<open>
  C10 fails on the code when the formatter ends with \<open>SystemExit\<close>, as a \<open>__main__\<close> that
  calls \<open>sys.exit\<close> does: \<open>run_module\<close> returns the result normally, and \<open>sys.argv\<close>,
  \<open>sys.stdout\<close>, \<open>sys.stderr\<close> and \<open>sys.stdin\<close> are left substituted; only the working
  directory is back.
\<close>

theorem run_module_after_SystemExit:
  "ended (module_main example_env ''yapf'' [''yapf''] ''/ws'' (''x=1'' @ [LF])) = Some SystemExit
   \<and> fst (run_module example_env ''yapf'' [''yapf''] True ''/ws'' (Some (''x=1'' @ [LF]))
            example_process)
       = Returns \<lparr>stdout = ''x = 1'' @ [LF], stderr = []\<rparr>
   \<and> sys_argv example_process = [''lsp_server.py'']
   \<and> sys_argv (snd (run_module example_env ''yapf'' [''yapf''] True ''/ws''
                       (Some (''x=1'' @ [LF])) example_process)) = [''yapf'']
   \<and> sys_stdout example_process = 1
   \<and> sys_stdout (snd (run_module example_env ''yapf'' [''yapf''] True ''/ws''
                         (Some (''x=1'' @ [LF])) example_process)) = 3
   \<and> sys_stderr example_process = 2
   \<and> sys_stderr (snd (run_module example_env ''yapf'' [''yapf''] True ''/ws''
                         (Some (''x=1'' @ [LF])) example_process)) = 4
   \<and> sys_stdin example_process = 0
   \<and> sys_stdin (snd (run_module example_env ''yapf'' [''yapf''] True ''/ws''
                        (Some (''x=1'' @ [LF])) example_process)) = 5
   \<and> os_cwd example_process = ''/srv''
   \<and> os_cwd (snd (run_module example_env ''yapf'' [''yapf''] True ''/ws''
                     (Some (''x=1'' @ [LF])) example_process)) = ''/srv''"
proof -
  let ?p = "example_process\<lparr>os_cwd := ''/ws''\<rparr>"
  have ns: "\<not> is_same_path example_env (os_cwd example_process) ''/ws''"
    by (simp add: is_same_path_def example_env_def example_process_def)
  have e: "ended (module_main example_env m a c s) = Some SystemExit"
    and w: "wrote_stdout (module_main example_env m a c s) = ''x = 1'' @ [LF]"
           "wrote_stderr (module_main example_env m a c s) = []"
    and sc: "SERVER_CWD example_env = ''/srv''" for m a c s
    by (simp_all add: example_env_def)
  obtain r q where rq: "private_run_module example_env ''yapf'' [''yapf''] True
                          (Some (''x=1'' @ [LF])) ?p = (r, q)"
    by (cases "private_run_module example_env ''yapf'' [''yapf''] True (Some (''x=1'' @ [LF])) ?p")
  have "r = fst (private_run_module example_env ''yapf'' [''yapf''] True (Some (''x=1'' @ [LF])) ?p)"
    using rq by simp
  then have r: "r = Returns \<lparr>stdout = ''x = 1'' @ [LF], stderr = []\<rparr>"
    by (simp add: private_run_module_stdin_fst Let_def e w)
  have q: "q = snd (private_run_module example_env ''yapf'' [''yapf''] True
                      (Some (''x=1'' @ [LF])) ?p)"
    using rq by simp
  have run: "run_module example_env ''yapf'' [''yapf''] True ''/ws'' (Some (''x=1'' @ [LF]))
               example_process = (r, q\<lparr>os_cwd := ''/srv''\<rparr>)"
    using ns rq r sc by (simp add: run_module_def change_cwd_def)
  have p: "sys_argv example_process = [''lsp_server.py'']" "sys_stdout example_process = 1"
    "sys_stderr example_process = 2" "sys_stdin example_process = 0"
    "os_cwd example_process = ''/srv''" "next_stream example_process = 3"
    by (simp_all add: example_process_def)
  show ?thesis
    unfolding run using r e p by (simp add: q private_run_module_attributes)
qed

subsection \<open>Line endings of the edit\<close>

lemma match_line_endings_cases:
  "match_line_endings document text =
     (case (get_line_endings (splitlines_keepends text),
            get_line_endings (splitlines_keepends (source document))) of
        (Some actual, Some expected) \<Rightarrow>
          if actual = expected then text else str_replace actual expected text
      | _ \<Rightarrow> text)"
  by (auto simp: match_line_endings_def Let_def split: option.splits)

lemma formatting_helper_new_text:
  assumes "fst (formatting_helper env document extra p) = Returns (Some edits)"
  shows "\<exists>out. out \<noteq> [] \<and> map new_text edits = [match_line_endings document out]"
proof (cases "fst (is_ignored env document p)")
  case True
  then show ?thesis using assms by (simp add: formatting_helper_ignored)
next
  case False
  show ?thesis
    using assms unfolding formatting_helper_fst[OF False]
    by (auto split: outcome.splits option.splits if_splits)
qed

text \<open>
  What \<open>_match_line_endings\<close> does, for every document and text.  The new text of every
  edit is the formatter's output passed through it.  The style of a text is read from its
  first line (\<open>\r\n\<close> when the line ends so, \<open>\n\<close> otherwise, none for an empty text).  When
  either style is missing, or both are equal, the text is returned unchanged; otherwise
  every occurrence of the output's line ending is replaced by the document's, which for a
  \<open>\n\<close> output in a \<open>\r\n\<close> document turns each line feed into \<open>\r\n\<close>.  When the first line
  of the output ends with a line feed and the document is not empty, the style read from
  the first line of the returned text is the style of the document.
\<close>

lemma match_line_endings_behaviour:
  "(\<forall>env extra p edits.
       fst (formatting_helper env document extra p) = Returns (Some edits) \<longrightarrow>
       (\<exists>out. out \<noteq> [] \<and> map new_text edits = [match_line_endings document out]))
   \<and> match_line_endings document text =
       (case (get_line_endings (splitlines_keepends text),
              get_line_endings (splitlines_keepends (source document))) of
          (Some actual, Some expected) \<Rightarrow>
            if actual = expected then text else str_replace actual expected text
        | _ \<Rightarrow> text)
   \<and> (get_line_endings (splitlines_keepends text) = None \<longleftrightarrow> text = [])
   \<and> (get_line_endings (splitlines_keepends text) = Some [LF] \<and>
       get_line_endings (splitlines_keepends (source document)) = Some CRLF \<longrightarrow>
         match_line_endings document text
           = concat (map (\<lambda>c. if c = LF then CRLF else [c]) text))
   \<and> (\<forall>first_line others.
         splitlines_keepends text = first_line # others \<and> suffix [LF] first_line \<and>
         source document \<noteq> [] \<longrightarrow>
         get_line_endings (splitlines_keepends (match_line_endings document text))
           = get_line_endings (splitlines_keepends (source document)))"
proof (intro conjI allI impI)
  fix env extra p edits
  assume "fst (formatting_helper env document extra p) = Returns (Some edits)"
  then show "\<exists>out. out \<noteq> [] \<and> map new_text edits = [match_line_endings document out]"
    by (rule formatting_helper_new_text)
next
  show "match_line_endings document text =
       (case (get_line_endings (splitlines_keepends text),
              get_line_endings (splitlines_keepends (source document))) of
          (Some actual, Some expected) \<Rightarrow>
            if actual = expected then text else str_replace actual expected text
        | _ \<Rightarrow> text)"
    by (rule match_line_endings_cases)
next
  show "get_line_endings (splitlines_keepends text) = None \<longleftrightarrow> text = []"
    using detect_nonempty[of "text"] detect_empty by (cases "text = []") auto
next
  assume "get_line_endings (splitlines_keepends text) = Some [LF] \<and>
       get_line_endings (splitlines_keepends (source document)) = Some CRLF"
  then show "match_line_endings document text
           = concat (map (\<lambda>c. if c = LF then CRLF else [c]) text)"
    by (simp add: match_line_endings_def str_replace_def replace_LF_everywhere)
next
  fix first_line others
  assume "splitlines_keepends text = first_line # others \<and> suffix [LF] first_line \<and>
         source document \<noteq> []"
  then show "get_line_endings (splitlines_keepends (match_line_endings document text))
           = get_line_endings (splitlines_keepends (source document))"
    using redetect by blast
qed


lemma match_line_endings_behaviour_example:
  "get_line_endings (splitlines_keepends (''a = 1'' @ [LF] @ ''b = 2'' @ [LF])) = Some [LF]
   \<and> get_line_endings (splitlines_keepends (source crlf_document)) = Some CRLF
   \<and> splitlines_keepends (''a = 1'' @ [LF] @ ''b = 2'' @ [LF])
       = [''a = 1'' @ [LF], ''b = 2'' @ [LF]]
   \<and> suffix [LF] (''a = 1'' @ [LF])
   \<and> source crlf_document \<noteq> []
   \<and> match_line_endings crlf_document (''a = 1'' @ [LF] @ ''b = 2'' @ [LF])
       = ''a = 1'' @ CRLF @ ''b = 2'' @ CRLF
   \<and> get_line_endings
        (splitlines_keepends
           (match_line_endings crlf_document (''a = 1'' @ [LF] @ ''b = 2'' @ [LF])))
       = Some CRLF"
proof -
  let ?out = "''a = 1'' @ [LF] @ ''b = 2'' @ [LF]"
  have sp: "splitlines_keepends ?out = [''a = 1'' @ [LF], ''b = 2'' @ [LF]]"
    by (simp add: splitlines_keepends_def is_line_boundary_def)
  have a: "get_line_endings (splitlines_keepends ?out) = Some [LF]"
    unfolding sp by (simp add: get_line_endings_def)
  have e: "get_line_endings (splitlines_keepends (source crlf_document)) = Some CRLF"
    by (simp add: crlf_document_def splitlines_keepends_def is_line_boundary_def
        get_line_endings_def)
  have sf: "suffix [LF] (''a = 1'' @ [LF])" by (simp add: suffix_def)
  have ne: "source crlf_document \<noteq> []" by (simp add: crlf_document_def)
  note t = match_line_endings_behaviour[of crlf_document ?out]
  note replaced = t[THEN conjunct2, THEN conjunct2, THEN conjunct2, THEN conjunct1, rule_format]
  note detected = t[THEN conjunct2, THEN conjunct2, THEN conjunct2, THEN conjunct2, rule_format]
  have m: "match_line_endings crlf_document ?out = ''a = 1'' @ CRLF @ ''b = 2'' @ CRLF"
    using replaced[OF conjI[OF a e]] by simp
  have d: "get_line_endings (splitlines_keepends (match_line_endings crlf_document ?out))
           = Some CRLF"
    using detected[OF conjI[OF sp conjI[OF sf ne]]] e by simp
  show ?thesis using sp a e sf ne m d by simp
qed











subsection \<open>Documents under a site-packages path\<close>

lemma get_settings_lookup_found:
  assumes "get_document_key env document = Some key"
  shows "\<exists>s. find (\<lambda>s. s_workspaceFS s = key) (WORKSPACE_SETTINGS env) = Some s"
proof -
  have "key \<in> set (map s_workspaceFS (WORKSPACE_SETTINGS env))"
    using assms by (auto simp: get_document_key_def find_Some_iff split: if_splits)
  then obtain s where "s \<in> set (WORKSPACE_SETTINGS env)" "s_workspaceFS s = key" by auto
  then have "find (\<lambda>s. s_workspaceFS s = key) (WORKSPACE_SETTINGS env) \<noteq> None"
    by (auto simp: find_None_iff)
  then show ?thesis by auto
qed

text \<open>
  For a document under a site-packages path that is not ignored, \<open>_run_tool_on_document\<close>
  returns \<open>None\<close> without running the formatter, and \<open>_formatting_helper\<close> reads the
  \<open>stdout\<close> of that \<open>None\<close>: the formatting handler raises \<open>AttributeError\<close>.
\<close>

lemma formatting_site_packages_document:
  assumes "\<not> fst (is_ignored env document p)" and "is_stdlib_file env (path document)"
  shows "fst (formatting env document p) = Raises AttributeError
         \<and> invocations (trace (snd (formatting env document p))) = invocations (trace p)"
  using assms formatting_helper_no_invocation[of env document p None]
  by (simp add: formatting_is_helper formatting_helper_fst run_tool_on_document_stdlib)

lemma formatting_site_packages_document_example:
  "\<not> fst (is_ignored example_env site_packages_document example_process)
   \<and> is_stdlib_file example_env (path site_packages_document)
   \<and> fst (formatting example_env site_packages_document example_process) = Raises AttributeError"
proof -
  have i: "\<not> fst (is_ignored example_env site_packages_document example_process)"
    by (simp add: examples_not_ignored)
  have s: "is_stdlib_file example_env (path site_packages_document)"
    by (simp add: is_stdlib_file_def example_env_def site_packages_document_def)
  from formatting_site_packages_document[OF i s] i s show ?thesis by simp
qed

end
